theory Spec2Isabelle
  imports Main "HOL-Library.Sublist" "HOL-Library.Word"
begin

section \<open>Values of the runtime\<close>

text \<open>
  Texts are \<^typ>\<open>string\<close>: lists of 8-bit characters, read as the code units below 256
  of the runtime's strings. An error object is the record of the three properties the
  signer reads or writes: \<open>message\<close>, \<open>stack\<close> and the relay's optional \<open>body\<close>.
  What a promise rejects with is an \<open>exn\<close>: an error object received from a
  collaborator or built by the error translation (\<open>ErrorObject\<close>), the signer's own
  \<open>throw new Error(message)\<close> (\<open>NewError\<close>, its stack being the runtime's), or one
  of the runtime's exceptions \<open>SyntaxError\<close> (raised by \<open>JSON.parse\<close>) and
  \<open>TypeError\<close> (calling a property that is not a function), or the library's
  rejection of an argument (\<open>InvalidArgument\<close>: a missing contract address or number,
  a value too long to pad).
\<close>

record js_error =
  message :: string
  stack :: "string option"
  body :: "string option"

datatype exn =
  ErrorObject js_error
  | NewError string
  | SyntaxError
  | TypeError
  | InvalidArgument

text \<open>
  A parsed JSON document. An object keeps its members in the order of the text; a number
  is kept as the text the runtime prints for it.
\<close>

datatype json =
  JNull
  | JBool bool
  | JNumber string
  | JString string
  | JArray "json list"
  | JObject "(string \<times> json) list"

text \<open>
  The result of reading a property through optional chaining (\<open>v?.k\<close>): \<open>Undefined\<close>
  or a JSON value. Of the two keys read here, \<open>error\<close> and \<open>message\<close>, neither is
  inherited from a prototype of a JSON value, so only an object's own members answer;
  where a key is repeated the last member wins.
\<close>

datatype jsval = Undefined | Val json

fun get_prop :: "jsval \<Rightarrow> string \<Rightarrow> jsval" where
  "get_prop (Val (JObject kvs)) k =
     (case map_of (rev kvs) k of None \<Rightarrow> Undefined | Some v \<Rightarrow> Val v)"
| "get_prop _ k = Undefined"

subsection \<open>String conversion of a JSON value\<close>

text \<open>
  The conversion a template literal applies. An array joins its elements with commas,
  \<open>null\<close> elements printing as nothing; an object prints as \<open>[object Object]\<close> unless
  it has a member \<open>toString\<close>, which (never being a function) makes the conversion
  raise \<open>TypeError\<close>.
\<close>

fun join_comma :: "string list \<Rightarrow> string" where
  "join_comma [] = []"
| "join_comma [x] = x"
| "join_comma (x # y # ys) = x @ '','' @ join_comma (y # ys)"

fun js_toString :: "json \<Rightarrow> exn + string"
  and js_elements :: "json list \<Rightarrow> exn + string list" where
  "js_toString JNull = Inr ''null''"
| "js_toString (JBool b) = Inr (if b then ''true'' else ''false'')"
| "js_toString (JNumber n) = Inr n"
| "js_toString (JString s) = Inr s"
| "js_toString (JArray xs) =
     (case js_elements xs of Inl e \<Rightarrow> Inl e | Inr ss \<Rightarrow> Inr (join_comma ss))"
| "js_toString (JObject kvs) =
     (if ''toString'' \<in> set (map fst kvs) then Inl TypeError else Inr ''[object Object]'')"
| "js_elements [] = Inr []"
| "js_elements (x # xs) =
     (case (if x = JNull then Inr [] else js_toString x) of
        Inl e \<Rightarrow> Inl e
      | Inr s \<Rightarrow> (case js_elements xs of Inl e \<Rightarrow> Inl e | Inr ss \<Rightarrow> Inr (s # ss)))"

fun template_of :: "jsval \<Rightarrow> exn + string" where
  "template_of Undefined = Inr ''undefined''"
| "template_of (Val v) = js_toString v"

subsection \<open>String operations used by the error translation\<close>

text \<open>\<open>s.includes(t)\<close>: \<open>t\<close> occurs in \<open>s\<close> as a contiguous run.\<close>

fun str_includes :: "string \<Rightarrow> string \<Rightarrow> bool" where
  "str_includes [] t = (t = [])"
| "str_includes (c # cs) t = (prefix t (c # cs) \<or> str_includes cs t)"

text \<open>
  \<open>s.match(/FailedOp\((.*)\)/)\<close>, giving the captured group. The regular expression
  is tried at each position from the left. At a position where \<open>FailedOp(\<close> begins, the
  greedy \<open>.*\<close> runs to the end of the line (a line feed or carriage return ends it)
  and backs up to the last closing parenthesis on it; with no closing parenthesis on
  the line, the next position is tried.
\<close>

definition is_line_terminator :: "char \<Rightarrow> bool" where
  "is_line_terminator c = (c = CHR 0x0A \<or> c = CHR 0x0D)"

definition up_to_last_paren :: "string \<Rightarrow> string" where
  "up_to_last_paren line = rev (tl (dropWhile (\<lambda>c. c \<noteq> CHR '')'') (rev line)))"

fun match_FailedOp :: "string \<Rightarrow> string option" where
  "match_FailedOp [] = None"
| "match_FailedOp (c # cs) =
     (if prefix ''FailedOp('' (c # cs) then
        (let line = takeWhile (\<lambda>x. \<not> is_line_terminator x) (drop 9 (c # cs)) in
         if CHR '')'' \<in> set line then Some (up_to_last_paren line)
         else match_FailedOp cs)
      else match_FailedOp cs)"

text \<open>\<open>s.split(',')\<close>: never empty; the empty text splits into one empty field.\<close>

fun split_comma :: "string \<Rightarrow> string list" where
  "split_comma [] = [[]]"
| "split_comma (c # cs) =
     (if c = CHR '','' then [] # split_comma cs
      else (case split_comma cs of
              [] \<Rightarrow> [[c]]
            | w # ws \<Rightarrow> (c # w) # ws))"

text \<open>\<open>xs[i]\<close> inside a template literal: a missing field prints as \<open>undefined\<close>.\<close>

definition field_text :: "string list \<Rightarrow> nat \<Rightarrow> string" where
  "field_text xs i = (if i < length xs then xs ! i else ''undefined'')"

section \<open>Error translation\<close>

text \<open>
  \<open>ZeroDevSigner.unwrapError\<close>. \<open>JSON.parse\<close> belongs to the runtime and is a
  parameter: \<open>parse b = None\<close> stands for its \<open>SyntaxError\<close>.

  The nested message is read with \<open>errorBody?.error?.message\<close>. The call
  \<open>failedOpMessage?.includes('FailedOp')\<close> is skipped for \<open>undefined\<close> and \<open>null\<close>,
  is the substring test on a string, is the membership test on an array (whose
  \<open>match\<close> is then not a function), and raises \<open>TypeError\<close> on a number, a boolean
  or an object, none of which has a callable \<open>includes\<close>.
\<close>

definition bundler_prefix :: string where
  "bundler_prefix = ''The bundler has failed to include UserOperation in a batch: ''"

definition generic_error :: "js_error \<Rightarrow> string \<Rightarrow> string \<Rightarrow> js_error" where
  "generic_error errorIn failedOpMessage paymasterInfo =
     \<lparr>message = bundler_prefix @ failedOpMessage @ '' '' @ paymasterInfo @ '')'',
      stack = stack errorIn, body = None\<rparr>"

definition translate_message :: "js_error \<Rightarrow> jsval \<Rightarrow> exn + js_error" where
  "translate_message errorIn failedOpMessage =
     (case failedOpMessage of
        Val (JString m) \<Rightarrow>
          (if str_includes m ''FailedOp'' then
             (case match_FailedOp m of
                Some g \<Rightarrow>
                  (let split = split_comma g in
                   Inr (generic_error errorIn (field_text split 2)
                          (''(paymaster address: '' @ field_text split 1 @ '')'')))
              | None \<Rightarrow> Inr (generic_error errorIn m []))
           else Inr (generic_error errorIn m []))
      | Val (JArray xs) \<Rightarrow>
          (if JString ''FailedOp'' \<in> set xs then Inl TypeError
           else (case template_of failedOpMessage of
                   Inl e \<Rightarrow> Inl e
                 | Inr t \<Rightarrow> Inr (generic_error errorIn t [])))
      | Val (JNumber n) \<Rightarrow> Inl TypeError
      | Val (JBool b) \<Rightarrow> Inl TypeError
      | Val (JObject kvs) \<Rightarrow> Inl TypeError
      | Val JNull \<Rightarrow> Inr (generic_error errorIn ''null'' [])
      | Undefined \<Rightarrow> Inr (generic_error errorIn ''undefined'' []))"

definition unwrapError :: "(string \<Rightarrow> json option) \<Rightarrow> js_error \<Rightarrow> exn + js_error" where
  "unwrapError parse errorIn =
     (case body errorIn of
        Some b \<Rightarrow>
          (case parse b of
             None \<Rightarrow> Inl SyntaxError
           | Some errorBody \<Rightarrow>
               translate_message errorIn
                 (get_prop (get_prop (Val errorBody) ''error'') ''message''))
      | None \<Rightarrow> Inr errorIn)"

subsection \<open>A reader for JSON text\<close>

text \<open>
  An executable reading of the JSON grammar, on which the error translation is run on
  concrete bodies: white space is space, tab, line feed and carriage return; a string
  holds no unescaped character below 0x20; a number is \<open>-?(0|[1-9][0-9]*)\<close> with an
  optional fraction and exponent; nothing but white space follows the value. It is
  an instance of the parameter \<open>parse\<close>, with two limits of the 8-bit texts: an
  escape \<open>\uXXXX\<close> above \<open>00FF\<close> names no 8-bit character and is not read, and a
  number is kept as it is written. The nesting it follows is bounded by the length of
  the text.
\<close>

definition is_ws :: "char \<Rightarrow> bool" where
  "is_ws c = (c = CHR 0x20 \<or> c = CHR 0x09 \<or> c = CHR 0x0A \<or> c = CHR 0x0D)"

definition skip_ws :: "string \<Rightarrow> string" where
  "skip_ws = dropWhile is_ws"

definition is_digit :: "char \<Rightarrow> bool" where
  "is_digit c = (48 \<le> (of_char c :: nat) \<and> (of_char c :: nat) \<le> 57)"

definition hex_val :: "char \<Rightarrow> nat option" where
  "hex_val c =
     (let n = (of_char c :: nat) in
      if 48 \<le> n \<and> n \<le> 57 then Some (n - 48)
      else if 97 \<le> n \<and> n \<le> 102 then Some (n - 87)
      else if 65 \<le> n \<and> n \<le> 70 then Some (n - 55)
      else None)"

definition hex4 :: "char \<Rightarrow> char \<Rightarrow> char \<Rightarrow> char \<Rightarrow> nat option" where
  "hex4 a b c d =
     (case (hex_val a, hex_val b, hex_val c, hex_val d) of
        (Some w, Some x, Some y, Some z) \<Rightarrow> Some (((w * 16 + x) * 16 + y) * 16 + z)
      | _ \<Rightarrow> None)"

definition simple_escape :: "char \<Rightarrow> char option" where
  "simple_escape e =
     (if e = CHR 0x22 then Some (CHR 0x22)
      else if e = CHR 0x5C then Some (CHR 0x5C)
      else if e = CHR ''/'' then Some (CHR ''/'')
      else if e = CHR ''b'' then Some (CHR 0x08)
      else if e = CHR ''f'' then Some (CHR 0x0C)
      else if e = CHR ''n'' then Some (CHR 0x0A)
      else if e = CHR ''r'' then Some (CHR 0x0D)
      else if e = CHR ''t'' then Some (CHR 0x09)
      else None)"

definition cons_char :: "char \<Rightarrow> (string \<times> string) option \<Rightarrow> (string \<times> string) option" where
  "cons_char c r = (case r of None \<Rightarrow> None | Some (s, rest) \<Rightarrow> Some (c # s, rest))"

text \<open>The characters of a string after its opening quote, and the text after its closing quote.\<close>

fun parse_string :: "string \<Rightarrow> (string \<times> string) option"
  and parse_escape :: "string \<Rightarrow> (string \<times> string) option" where
  "parse_string [] = None"
| "parse_string (c # cs) =
     (if c = CHR 0x22 then Some ([], cs)
      else if c = CHR 0x5C then parse_escape cs
      else if (of_char c :: nat) < 32 then None
      else cons_char c (parse_string cs))"
| "parse_escape [] = None"
| "parse_escape (e # es) =
     (if e = CHR ''u'' then
        (case es of
           a # b # c # d # r \<Rightarrow>
             (case hex4 a b c d of
                Some n \<Rightarrow> if n < 256 then cons_char (char_of n) (parse_string r) else None
              | None \<Rightarrow> None)
         | _ \<Rightarrow> None)
      else (case simple_escape e of
              None \<Rightarrow> None
            | Some ch \<Rightarrow> cons_char ch (parse_string es)))"

text \<open>A number: its text and the text after it.\<close>

definition parse_digits :: "string \<Rightarrow> (string \<times> string) option" where
  "parse_digits cs =
     (let ds = takeWhile is_digit cs in
      if ds = [] then None else Some (ds, dropWhile is_digit cs))"

definition parse_int_part :: "string \<Rightarrow> (string \<times> string) option" where
  "parse_int_part cs =
     (case cs of
        [] \<Rightarrow> None
      | c # r \<Rightarrow>
          if c = CHR ''0'' then Some (''0'', r)
          else if is_digit c then Some (c # takeWhile is_digit r, dropWhile is_digit r)
          else None)"

definition parse_fraction :: "string \<Rightarrow> (string \<times> string) option" where
  "parse_fraction cs =
     (case cs of
        [] \<Rightarrow> Some ([], cs)
      | c # r \<Rightarrow>
          if c = CHR ''.'' then
            (case parse_digits r of None \<Rightarrow> None | Some (ds, r') \<Rightarrow> Some (c # ds, r'))
          else Some ([], cs))"

definition parse_exponent :: "string \<Rightarrow> (string \<times> string) option" where
  "parse_exponent cs =
     (case cs of
        [] \<Rightarrow> Some ([], cs)
      | c # r \<Rightarrow>
          if c = CHR ''e'' \<or> c = CHR ''E'' then
            (case r of
               [] \<Rightarrow> None
             | s # r' \<Rightarrow>
                 if s = CHR ''+'' \<or> s = CHR ''-'' then
                   (case parse_digits r' of
                      None \<Rightarrow> None
                    | Some (ds, r'') \<Rightarrow> Some (c # s # ds, r''))
                 else (case parse_digits r of
                         None \<Rightarrow> None
                       | Some (ds, r'') \<Rightarrow> Some (c # ds, r'')))
          else Some ([], cs))"

definition parse_number :: "string \<Rightarrow> (string \<times> string) option" where
  "parse_number cs =
     (let (sign, r0) = (case cs of
                          [] \<Rightarrow> ([], cs)
                        | c # r \<Rightarrow> if c = CHR ''-'' then ([c], r) else ([], cs))
      in case parse_int_part r0 of
           None \<Rightarrow> None
         | Some (ip, r1) \<Rightarrow>
             (case parse_fraction r1 of
                None \<Rightarrow> None
              | Some (fp, r2) \<Rightarrow>
                  (case parse_exponent r2 of
                     None \<Rightarrow> None
                   | Some (ep, r3) \<Rightarrow> Some (sign @ ip @ fp @ ep, r3))))"

text \<open>
  A value, the elements of a non-empty array after its bracket, and the members of a
  non-empty object after its brace, each with the text left over. The first argument
  bounds the nesting.
\<close>

fun parse_value :: "nat \<Rightarrow> string \<Rightarrow> (json \<times> string) option"
  and parse_elements :: "nat \<Rightarrow> string \<Rightarrow> (json list \<times> string) option"
  and parse_members :: "nat \<Rightarrow> string \<Rightarrow> ((string \<times> json) list \<times> string) option" where
  "parse_value 0 cs = None"
| "parse_value (Suc n) cs =
     (case skip_ws cs of
        [] \<Rightarrow> None
      | c # r \<Rightarrow>
          if c = CHR ''{'' then
            (case skip_ws r of
               [] \<Rightarrow> None
             | d # r' \<Rightarrow>
                 if d = CHR ''}'' then Some (JObject [], r')
                 else (case parse_members n (d # r') of
                         None \<Rightarrow> None
                       | Some (kvs, r'') \<Rightarrow> Some (JObject kvs, r'')))
          else if c = CHR ''['' then
            (case skip_ws r of
               [] \<Rightarrow> None
             | d # r' \<Rightarrow>
                 if d = CHR '']'' then Some (JArray [], r')
                 else (case parse_elements n (d # r') of
                         None \<Rightarrow> None
                       | Some (vs, r'') \<Rightarrow> Some (JArray vs, r'')))
          else if c = CHR 0x22 then
            (case parse_string r of None \<Rightarrow> None | Some (s, r') \<Rightarrow> Some (JString s, r'))
          else if prefix ''true'' (c # r) then Some (JBool True, drop 4 (c # r))
          else if prefix ''false'' (c # r) then Some (JBool False, drop 5 (c # r))
          else if prefix ''null'' (c # r) then Some (JNull, drop 4 (c # r))
          else (case parse_number (c # r) of
                  None \<Rightarrow> None
                | Some (n, r') \<Rightarrow> Some (JNumber n, r')))"
| "parse_elements 0 cs = None"
| "parse_elements (Suc n) cs =
     (case parse_value n cs of
        None \<Rightarrow> None
      | Some (v, r) \<Rightarrow>
          (case skip_ws r of
             [] \<Rightarrow> None
           | c # r' \<Rightarrow>
               if c = CHR '']'' then Some ([v], r')
               else if c = CHR '','' then
                 (case parse_elements n r' of
                    None \<Rightarrow> None
                  | Some (vs, r'') \<Rightarrow> Some (v # vs, r''))
               else None))"
| "parse_members 0 cs = None"
| "parse_members (Suc n) cs =
     (case skip_ws cs of
        [] \<Rightarrow> None
      | q # r \<Rightarrow>
          if q = CHR 0x22 then
            (case parse_string r of
               None \<Rightarrow> None
             | Some (k, r1) \<Rightarrow>
                 (case skip_ws r1 of
                    [] \<Rightarrow> None
                  | c # r2 \<Rightarrow>
                      if c = CHR '':'' then
                        (case parse_value n r2 of
                           None \<Rightarrow> None
                         | Some (v, r3) \<Rightarrow>
                             (case skip_ws r3 of
                                [] \<Rightarrow> None
                              | e # r4 \<Rightarrow>
                                  if e = CHR ''}'' then Some ([(k, v)], r4)
                                  else if e = CHR '','' then
                                    (case parse_members n r4 of
                                       None \<Rightarrow> None
                                     | Some (kvs, r5) \<Rightarrow> Some ((k, v) # kvs, r5))
                                  else None))
                      else None))
          else None)"

definition json_parse :: "string \<Rightarrow> json option" where
  "json_parse s =
     (case parse_value (Suc (length s)) s of
        None \<Rightarrow> None
      | Some (v, r) \<Rightarrow> if skip_ws r = [] then Some v else None)"

section \<open>Transactions and user operations\<close>

text \<open>
  A \<open>BigNumberish\<close> is a number, a text or a \<open>BigNumber\<close> object. In a condition a
  missing field, the number 0 and the empty text are false; every object is true.
\<close>

datatype bignumberish = Number int | Text string | BigNumber int

fun truthy :: "bignumberish option \<Rightarrow> bool" where
  "truthy None = False"
| "truthy (Some (Number n)) = (n \<noteq> 0)"
| "truthy (Some (Text s)) = (s \<noteq> [])"
| "truthy (Some (BigNumber n)) = True"

text \<open>
  The fields of a request that the signer reads or writes, already resolved; \<open>tx_from\<close>
  and \<open>tx_value\<close> are the source's \<open>from\<close> and \<open>value\<close>. The record is extensible, so
  that any further field of a request is carried along.
\<close>

record TransactionRequest =
  to :: "string option"
  tx_from :: "string option"
  data :: "string option"
  tx_value :: "bignumberish option"
  gasLimit :: "bignumberish option"
  gasPrice :: "bignumberish option"
  maxFeePerGas :: "bignumberish option"
  maxPriorityFeePerGas :: "bignumberish option"

record UserOperationStruct =
  sender :: string
  nonce :: bignumberish
  initCode :: string
  callData :: string
  callGasLimit :: bignumberish
  verificationGasLimit :: bignumberish
  preVerificationGas :: bignumberish
  op_maxFeePerGas :: bignumberish
  op_maxPriorityFeePerGas :: bignumberish
  paymasterAndData :: string
  signature :: string

text \<open>The argument of \<open>createUnsignedUserOp\<close> and \<open>createSignedUserOp\<close>.\<close>

record TransactionDetailsForUserOp =
  target :: string
  details_data :: string
  details_value :: "bignumberish option"
  details_gasLimit :: "bignumberish option"
  details_maxFeePerGas :: "bignumberish option"
  details_maxPriorityFeePerGas :: "bignumberish option"

record TransactionResponse =
  hash :: string

text \<open>The argument of the \<open>transactionStarted\<close> hook.\<close>

record TransactionInfo =
  info_hash :: string
  info_from :: "string option"
  info_to :: "string option"
  info_value :: bignumberish
  sponsored :: bool
  module :: "string option"

record GasInfo =
  gas_preVerificationGas :: int
  gas_verificationGas :: int
  gas_callGasLimit :: int

text \<open>
  The calls the signer makes to its collaborators, in the order it makes them. The
  account API builds operations (reading the chain and asking the paymaster as it needs),
  the relay client estimates and submits them over the network.
\<close>

datatype event =
  CreateUnsignedUserOp TransactionDetailsForUserOp
  | EstimateUserOpGas UserOperationStruct
  | CreateSignedUserOp TransactionDetailsForUserOp
  | ConstructUserOpTransactionResponse UserOperationStruct
  | TransactionStarted TransactionInfo
  | SendUserOpToBundler UserOperationStruct

text \<open>
  The collaborators of \<open>sendTransaction\<close> and \<open>estimateGas\<close>, none of them code of the
  signer: the library's \<open>checkTransaction\<close> with \<open>resolveProperties\<close>, the account
  API, the provider, the relay client, the configured hook and \<open>getModuleInfo\<close>. Each
  answers with a value or with what it throws; the relay client throws error objects.
\<close>

record collaborators =
  checkTransaction :: "TransactionRequest \<Rightarrow> exn + TransactionRequest"
  createUnsignedUserOp :: "TransactionDetailsForUserOp \<Rightarrow> exn + UserOperationStruct"
  estimateUserOpGas :: "UserOperationStruct \<Rightarrow> exn + GasInfo"
  createSignedUserOp :: "TransactionDetailsForUserOp \<Rightarrow> exn + UserOperationStruct"
  constructUserOpTransactionResponse :: "UserOperationStruct \<Rightarrow> exn + TransactionResponse"
  transactionStarted :: "(TransactionInfo \<Rightarrow> exn + unit) option"
  getModuleInfo :: "TransactionRequest \<Rightarrow> string option"
  sendUserOpToBundler :: "UserOperationStruct \<Rightarrow> js_error + string"
  JSON_parse :: "string \<Rightarrow> json option"

subsection \<open>estimateGas\<close>

definition dummy_signature :: string where
  "dummy_signature = ''0x4046ab7d9c387d7a5ef5ca0777eded29767fd9863048946d35b3042d2f7458ff7c62ade2903503e15973a63a296313eab15b964a18d79f4b06c8c01c7028143c1c''"

text \<open>
  The argument \<open>estimateGas\<close> builds for \<open>createUnsignedUserOp\<close>: \<open>tx.to ?? ''\<close>,
  \<open>tx.data?.toString() ?? '0x'\<close>, the value and the two fee fields; no gas limit.
\<close>

definition unsigned_details :: "TransactionRequest \<Rightarrow> TransactionDetailsForUserOp" where
  "unsigned_details tx =
     \<lparr>target = (case to tx of Some t \<Rightarrow> t | None \<Rightarrow> []),
      details_data = (case data tx of Some d \<Rightarrow> d | None \<Rightarrow> ''0x''),
      details_value = tx_value tx,
      details_gasLimit = None,
      details_maxFeePerGas = maxFeePerGas tx,
      details_maxPriorityFeePerGas = maxPriorityFeePerGas tx\<rparr>"

definition estimateGas :: "collaborators \<Rightarrow> TransactionRequest \<Rightarrow> event list \<times> (exn + int)" where
  "estimateGas c transaction =
     (case checkTransaction c transaction of
        Inl e \<Rightarrow> ([], Inl e)
      | Inr tx \<Rightarrow>
          (let details = unsigned_details tx
           in case createUnsignedUserOp c details of
                Inl e \<Rightarrow> ([CreateUnsignedUserOp details], Inl e)
              | Inr userOperation \<Rightarrow>
                  (let op = userOperation\<lparr>signature := dummy_signature\<rparr> in
                   case estimateUserOpGas c op of
                     Inl e \<Rightarrow> ([CreateUnsignedUserOp details, EstimateUserOpGas op], Inl e)
                   | Inr gasInfo \<Rightarrow>
                       ([CreateUnsignedUserOp details, EstimateUserOpGas op],
                        Inr (gas_preVerificationGas gasInfo + gas_verificationGas gasInfo
                             + gas_callGasLimit gasInfo)))))"

subsection \<open>sendTransaction\<close>

definition verifyAllNecessaryFields :: "TransactionRequest \<Rightarrow> exn + unit" where
  "verifyAllNecessaryFields transactionRequest =
     (if to transactionRequest = None then Inl (NewError ''Missing call target'')
      else if data transactionRequest = None \<and> tx_value transactionRequest = None
      then Inl (NewError ''Missing call data or value'')
      else Inr ())"

text \<open>The first statement of \<open>sendTransaction\<close>: the fee fields are set to 0.\<close>

definition zero_fees :: "TransactionRequest \<Rightarrow> TransactionRequest" where
  "zero_fees transaction =
     (if truthy (maxFeePerGas transaction) \<or> truthy (maxPriorityFeePerGas transaction)
      then transaction\<lparr>maxFeePerGas := Some (Number 0), maxPriorityFeePerGas := Some (Number 0)\<rparr>
      else transaction\<lparr>gasPrice := Some (Number 0)\<rparr>)"

text \<open>
  The \<open>try\<close>/\<open>catch\<close> around the submission: what \<open>sendUserOpToBundler\<close> throws goes
  through \<open>unwrapError\<close>, and the result of that is thrown; an exception raised inside
  \<open>unwrapError\<close> leaves the handler as it is.
\<close>

definition submit :: "collaborators \<Rightarrow> UserOperationStruct \<Rightarrow> event list \<times> (exn + unit)" where
  "submit c userOperation =
     ([SendUserOpToBundler userOperation],
      (case sendUserOpToBundler c userOperation of
         Inl error \<Rightarrow>
           (case unwrapError (JSON_parse c) error of
              Inl e \<Rightarrow> Inl e
            | Inr error' \<Rightarrow> Inl (ErrorObject error'))
       | Inr _ \<Rightarrow> Inr ()))"

text \<open>The hook, when one is configured; its argument is built only then.\<close>

definition invoke_hook ::
  "collaborators \<Rightarrow> TransactionRequest \<Rightarrow> UserOperationStruct \<Rightarrow> TransactionResponse
     \<Rightarrow> event list \<times> (exn + unit)" where
  "invoke_hook c tx userOperation transactionResponse =
     (case transactionStarted c of
        None \<Rightarrow> ([], Inr ())
      | Some hook \<Rightarrow>
          (let info =
                 \<lparr>info_hash = hash transactionResponse,
                  info_from = tx_from tx,
                  info_to = to tx,
                  info_value = (case tx_value tx of
                                  Some v \<Rightarrow> if truthy (Some v) then v else Number 0
                                | None \<Rightarrow> Number 0),
                  sponsored = (paymasterAndData userOperation \<noteq> ''0x''),
                  module = getModuleInfo c tx\<rparr>
           in ([TransactionStarted info], hook info)))"

text \<open>
  The argument \<open>sendTransaction\<close> builds for \<open>createSignedUserOp\<close>: as for the
  estimate, with the request's gas limit.
\<close>

definition signed_details :: "TransactionRequest \<Rightarrow> TransactionDetailsForUserOp" where
  "signed_details tx =
     \<lparr>target = (case to tx of Some t \<Rightarrow> t | None \<Rightarrow> []),
      details_data = (case data tx of Some d \<Rightarrow> d | None \<Rightarrow> ''0x''),
      details_value = tx_value tx,
      details_gasLimit = gasLimit tx,
      details_maxFeePerGas = maxFeePerGas tx,
      details_maxPriorityFeePerGas = maxPriorityFeePerGas tx\<rparr>"

text \<open>
  \<open>ZeroDevSigner.sendTransaction\<close>. \<open>populateTransaction\<close> is the library's, inherited
  by the signer, and is the parameter \<open>populate\<close>: it answers with the calls it made
  and the populated request, or what it threw. The result is the calls made, in order,
  and the response or the rejection.
\<close>

definition sendTransaction ::
  "collaborators \<Rightarrow> (TransactionRequest \<Rightarrow> event list \<times> (exn + TransactionRequest))
     \<Rightarrow> TransactionRequest \<Rightarrow> event list \<times> (exn + TransactionResponse)" where
  "sendTransaction c populate transaction =
     (case populate (zero_fees transaction) of
        (ev0, Inl e) \<Rightarrow> (ev0, Inl e)
      | (ev0, Inr tx) \<Rightarrow>
          (case verifyAllNecessaryFields tx of
             Inl e \<Rightarrow> (ev0, Inl e)
           | Inr _ \<Rightarrow>
               (let details = signed_details tx;
                    ev1 = ev0 @ [CreateSignedUserOp details]
                in case createSignedUserOp c details of
                     Inl e \<Rightarrow> (ev1, Inl e)
                   | Inr userOperation \<Rightarrow>
                       (let ev2 = ev1 @ [ConstructUserOpTransactionResponse userOperation]
                        in case constructUserOpTransactionResponse c userOperation of
                             Inl e \<Rightarrow> (ev2, Inl e)
                           | Inr transactionResponse \<Rightarrow>
                               (case invoke_hook c tx userOperation transactionResponse of
                                  (ev3, Inl e) \<Rightarrow> (ev2 @ ev3, Inl e)
                                | (ev3, Inr _) \<Rightarrow>
                                    (case submit c userOperation of
                                       (ev4, Inl e) \<Rightarrow> (ev2 @ ev3 @ ev4, Inl e)
                                     | (ev4, Inr _) \<Rightarrow>
                                         (ev2 @ ev3 @ ev4, Inr transactionResponse)))))))"

text \<open>
  The part of the library's \<open>populateTransaction\<close> that the signer's comment names
  (\<open>populateTransaction\<close> internally calls \<open>estimateGas\<close>): a request without a gas limit
  gets the estimate of the signer's own \<open>estimateGas\<close>, and a failed estimate rejects.
  It is an instance of the parameter \<open>populate\<close>, on which \<open>sendTransaction\<close> is run.
\<close>

definition populate_with_estimate ::
  "(TransactionRequest \<Rightarrow> event list \<times> (exn + int)) \<Rightarrow> TransactionRequest
     \<Rightarrow> event list \<times> (exn + TransactionRequest)" where
  "populate_with_estimate estimate tx =
     (case gasLimit tx of
        Some g \<Rightarrow> ([], Inr tx)
      | None \<Rightarrow>
          (case estimate tx of
             (evs, Inl e) \<Rightarrow>
               (evs, Inl (NewError ''cannot estimate gas; transaction may fail or may require manual gas limit''))
           | (evs, Inr g) \<Rightarrow> (evs, Inr (tx\<lparr>gasLimit := Some (BigNumber g)\<rparr>))))"

section \<open>The account API\<close>

text \<open>
  What the chain answers to the reads of the account API and the signer. A read is
  answered from the chain state; each read made is recorded, in order.
\<close>

record chain =
  code_at :: "string \<Rightarrow> string"
  nonce_of :: "string \<Rightarrow> int"
  owners_of :: "string \<Rightarrow> string list"
  balance_of :: "string \<Rightarrow> int"
  erc20_balance :: "string \<Rightarrow> string \<Rightarrow> int"
  erc1155_balance :: "string \<Rightarrow> string \<Rightarrow> bignumberish \<Rightarrow> int"

datatype chain_read =
  GetCode string
  | ReadNonce string
  | GetOwners string
  | GetBalance string
  | Erc20BalanceOf string string
  | Erc1155BalanceOf string string bignumberish

text \<open>
  The fields of \<open>GnosisAccountAPI\<close>, with the three of its base class that the code
  below reads: the account's address, the deployment state and the delegate mode.
  \<open>owner\<close> is the address the owner signer answers with; a connected contract
  (\<open>accountContract\<close>, \<open>factory\<close>) is known by the address it was connected at. The
  record is extensible: the further fields of the base class are carried along.
\<close>

record GnosisAccountAPI =
  factoryAddress :: "string option"
  owner :: string
  index :: int
  accountContract :: "string option"
  factory :: "string option"
  accountAddress :: string
  isPhantom :: bool
  delegateMode :: bool

text \<open>
  Modelled from the spec: \<open>BaseAccountAPI.checkAccountPhantom\<close> is not among the
  sources. The deployment state is Phantom or Deployed; Phantom to Deployed is one-way
  and cached permanently once observed. The spec does not say how deployment is
  observed: here it is one read of the code at the account's address, made only while
  the cached state is Phantom, an address without code answering \<open>0x\<close>.
\<close>

definition checkAccountPhantom ::
  "chain \<Rightarrow> 'a GnosisAccountAPI_scheme \<Rightarrow> bool \<times> 'a GnosisAccountAPI_scheme \<times> chain_read list" where
  "checkAccountPhantom ch api =
     (if \<not> isPhantom api then (False, api, [])
      else if length (code_at ch (accountAddress api)) > 2
      then (False, api\<lparr>isPhantom := False\<rparr>, [GetCode (accountAddress api)])
      else (True, api, [GetCode (accountAddress api)]))"

text \<open>\<open>_getAccountContract\<close>: the contract is connected once, at the account's address.\<close>

definition getAccountContract ::
  "'a GnosisAccountAPI_scheme \<Rightarrow> string \<times> 'a GnosisAccountAPI_scheme" where
  "getAccountContract api =
     (case accountContract api of
        None \<Rightarrow> (accountAddress api, api\<lparr>accountContract := Some (accountAddress api)\<rparr>)
      | Some a \<Rightarrow> (a, api))"

text \<open>\<open>GnosisAccountAPI.getNonce\<close>: the nonce, the API afterwards and the reads made.\<close>

definition getNonce ::
  "chain \<Rightarrow> 'a GnosisAccountAPI_scheme \<Rightarrow> int \<times> 'a GnosisAccountAPI_scheme \<times> chain_read list" where
  "getNonce ch api =
     (case checkAccountPhantom ch api of
        (undeployed, api1, reads) \<Rightarrow>
          if undeployed then (0, api1, reads)
          else (case getAccountContract api1 of
                  (contract, api2) \<Rightarrow>
                    (nonce_of ch contract, api2, reads @ [ReadNonce contract])))"

subsection \<open>Encoded data\<close>

text \<open>
  Call data and init code are built by the library's encoders. They are kept as the
  terms the code builds: a hex text, the encoding of a call of a named function on its
  arguments, the concatenation \<open>hexConcat\<close>, and the batch \<open>encodeMultiSend\<close> of calls,
  a call being its \<open>to\<close>, \<open>value\<close> and \<open>data\<close>.
\<close>

datatype abi_arg =
  AddressArg string
  | NumberArg bignumberish
  | DataArg hexdata
and hexdata =
  Hex string
  | FunctionData string "abi_arg list"
  | HexConcat "hexdata list"
  | EncodeMultiSend "call list"
and call =
  Call (call_to: string) (call_value: bignumberish) (call_data: hexdata)

subsection \<open>getAccountInitCode\<close>

text \<open>
  \<open>toLowerCase\<close> on 8-bit texts: the letters A to Z, and the capital letters from
  0xC0 to 0xDE but the multiplication sign 0xD7, move up by 0x20.
\<close>

definition lower_char :: "char \<Rightarrow> char" where
  "lower_char c =
     (let n = (of_char c :: nat) in
      if (65 \<le> n \<and> n \<le> 90) \<or> (192 \<le> n \<and> n \<le> 222 \<and> n \<noteq> 215)
      then char_of (n + 32) else c)"

definition toLowerCase :: "string \<Rightarrow> string" where
  "toLowerCase s = map lower_char s"

definition migrated_owners :: "string list" where
  "migrated_owners =
     [''0x0d68adA5ba372a508Cd76f46000292028E64B1f8'',
      ''0xd19B624010d6bd0223658059Ac892514e41676B7'',
      ''0x7AeCA2dFf97B9692E17a1fa64E42d527179624d3'',
      ''0x3cE0223eDBfA89eCDf9Dc85abB3d1b7361B24354'']"

definition migrated_factory :: string where
  "migrated_factory = ''0x5d7a58eFbC95f5b3Da446D9496D73a6E9D57b0a4''"

text \<open>The \<open>for\<close> loop over the hardcoded addresses.\<close>

fun override_factory ::
  "string list \<Rightarrow> string \<Rightarrow> 'a GnosisAccountAPI_scheme \<Rightarrow> 'a GnosisAccountAPI_scheme" where
  "override_factory [] ownerAddress api = api"
| "override_factory (addr # addrs) ownerAddress api =
     override_factory addrs ownerAddress
       (if toLowerCase addr = toLowerCase ownerAddress
        then api\<lparr>factoryAddress := Some migrated_factory\<rparr> else api)"

text \<open>
  The library's encoder takes a number for an unsigned integer when it is not negative
  and is below \<open>0x1fffffffffffff\<close>; any other number it rejects.
\<close>

definition encodable_number :: "int \<Rightarrow> bool" where
  "encodable_number i = (0 \<le> i \<and> i < 0x1FFFFFFFFFFFFF)"

text \<open>
  \<open>hexConcat([factory.address, encodeFunctionData('createAccount', [ownerAddress,
  index])])\<close>: the init code, or the encoder's rejection of the index.
\<close>

definition createAccount_code :: "string \<Rightarrow> string \<Rightarrow> int \<Rightarrow> exn + hexdata" where
  "createAccount_code factory_address ownerAddress i =
     (if encodable_number i
      then Inr (HexConcat [Hex factory_address,
                  FunctionData ''createAccount''
                    [AddressArg ownerAddress, NumberArg (Number i)]])
      else Inl InvalidArgument)"

text \<open>
  \<open>GnosisAccountAPI.getAccountInitCode\<close>: the init code or what is thrown, and the
  API afterwards. The factory is connected before the init code is encoded, so it stays
  connected when the encoder rejects the index.
\<close>

definition getAccountInitCode ::
  "'a GnosisAccountAPI_scheme \<Rightarrow> (exn + hexdata) \<times> 'a GnosisAccountAPI_scheme" where
  "getAccountInitCode api =
     (let ownerAddress = owner api;
          api1 = override_factory migrated_owners ownerAddress api
      in case factory api1 of
           Some f \<Rightarrow> (createAccount_code f ownerAddress (index api1), api1)
         | None \<Rightarrow>
             (case factoryAddress api1 of
                Some fa \<Rightarrow>
                  if fa \<noteq> [] then
                    (createAccount_code fa ownerAddress (index api1),
                     api1\<lparr>factory := Some fa\<rparr>)
                  else (Inl (NewError ''no factory to get initCode''), api1)
              | None \<Rightarrow> (Inl (NewError ''no factory to get initCode''), api1)))"

section \<open>The signer\<close>

text \<open>
  Account API objects live in a store and are referred to by their position in it, so
  that two signers sharing one API object, or holding different ones, can be told apart.
  A signer holds the reference to its API, its cached \<open>address\<close> and the address of
  the \<open>originalSigner\<close>; the record's extension holds the configuration, the provider
  and the relay client, which a new signer receives as they are.
\<close>

type_synonym 'a store = "'a GnosisAccountAPI_scheme list"

record ZeroDevSigner =
  smartAccountAPI :: nat
  address :: "string option"
  originalSigner :: string

text \<open>
  \<open>delegateCopy\<close>: \<open>Object.assign\<close> into a new object copies every field of the API,
  the new object's \<open>delegateMode\<close> is set, and a new signer (its \<open>address\<close> not yet
  known) is built around it.
\<close>

definition delegateCopy ::
  "'a store \<Rightarrow> 'b ZeroDevSigner_scheme \<Rightarrow> 'a store \<times> 'b ZeroDevSigner_scheme" where
  "delegateCopy st this =
     (let delegateAccountAPI = (st ! smartAccountAPI this)\<lparr>delegateMode := True\<rparr>
      in (st @ [delegateAccountAPI],
          this\<lparr>smartAccountAPI := length st, address := None\<rparr>))"

text \<open>
  \<open>getAddress\<close>: the account's address is asked of the provider once and cached;
  \<open>senderAccountAddress\<close> is the provider's answer.
\<close>

definition getAddress ::
  "string \<Rightarrow> 'b ZeroDevSigner_scheme \<Rightarrow> string \<times> 'b ZeroDevSigner_scheme" where
  "getAddress senderAccountAddress this =
     (case address this of
        None \<Rightarrow> (senderAccountAddress, this\<lparr>address := Some senderAccountAddress\<rparr>)
      | Some a \<Rightarrow> (a, this))"

subsection \<open>Message signatures\<close>

text \<open>
  Signatures, init payloads and encodings are byte sequences (the code holds them as
  hex texts, and appending hex digits appends the bytes they spell); an address is a
  160-bit word. The library's \<open>AbiCoder.encode\<close> for the types \<open>address\<close>, \<open>bytes\<close>,
  \<open>bytes\<close> is written out after the contract ABI: three head words (the address, and
  the offsets of the two byte strings), then each byte string as its length and its
  bytes, padded with zeros to a multiple of 32.
\<close>

type_synonym byte = "8 word"

fun be_bytes :: "nat \<Rightarrow> nat \<Rightarrow> byte list" where
  "be_bytes 0 n = []"
| "be_bytes (Suc k) n = be_bytes k (n div 256) @ [of_nat (n mod 256)]"

definition be_nat :: "byte list \<Rightarrow> nat" where
  "be_nat bs = foldl (\<lambda>a b. a * 256 + unat b) 0 bs"

definition uint256 :: "nat \<Rightarrow> byte list" where
  "uint256 n = be_bytes 32 n"

definition pad_right :: "byte list \<Rightarrow> byte list" where
  "pad_right bs = bs @ replicate ((32 - length bs mod 32) mod 32) 0"

definition encode_bytes :: "byte list \<Rightarrow> byte list" where
  "encode_bytes bs = uint256 (length bs) @ pad_right bs"

definition encode_address :: "160 word \<Rightarrow> byte list" where
  "encode_address a = uint256 (unat a)"

definition abi_encode :: "160 word \<Rightarrow> byte list \<Rightarrow> byte list \<Rightarrow> byte list" where
  "abi_encode a b1 b2 =
     encode_address a @ uint256 96 @ uint256 (96 + length (encode_bytes b1))
       @ encode_bytes b1 @ encode_bytes b2"

text \<open>The magic suffix: the two bytes 0x64, 0x92 sixteen times over.\<close>

definition MAGIC_SUFFIX :: "byte list" where
  "MAGIC_SUFFIX = concat (replicate 16 [0x64, 0x92])"

text \<open>
  \<open>ZeroDevSigner.signMessage\<close>. \<open>sign\<close> is the original signer's signature of the
  message hash after \<open>fixSignedData\<close>; \<open>factoryAddress\<close> and \<open>initPayload\<close> are what
  the API's \<open>getFactoryAddress\<close> and \<open>getFactoryAccountInitCode\<close> answer. The result
  is the signature, the API afterwards and the reads made.
\<close>

definition signMessage ::
  "chain \<Rightarrow> 'a GnosisAccountAPI_scheme \<Rightarrow> ('m \<Rightarrow> byte list) \<Rightarrow> 160 word \<Rightarrow> byte list \<Rightarrow> 'm
     \<Rightarrow> byte list \<times> 'a GnosisAccountAPI_scheme \<times> chain_read list" where
  "signMessage ch api sign factoryAddr initPayload msg =
     (let sig = sign msg in
      case checkAccountPhantom ch api of
        (undeployed, api1, reads) \<Rightarrow>
          if undeployed
          then (abi_encode factoryAddr initPayload sig @ MAGIC_SUFFIX, api1, reads)
          else (sig, api1, reads))"

text \<open>
  The reverse of the packing, after the spec's words (the sources hold no decoder):
  strip the fixed suffix, decode the triple, take the signature. A byte string is
  decoded at the offset its head word gives: its length, then that many bytes.
\<close>

definition decode_bytes_at :: "byte list \<Rightarrow> nat \<Rightarrow> byte list" where
  "decode_bytes_at enc off = take (be_nat (take 32 (drop off enc))) (drop (off + 32) enc)"

definition abi_decode :: "byte list \<Rightarrow> 160 word \<times> byte list \<times> byte list" where
  "abi_decode enc =
     (of_nat (be_nat (take 32 enc)),
      decode_bytes_at enc (be_nat (take 32 (drop 32 enc))),
      decode_bytes_at enc (be_nat (take 32 (drop 64 enc))))"

definition unwrap :: "byte list \<Rightarrow> byte list option" where
  "unwrap blob =
     (if suffix MAGIC_SUFFIX blob
      then Some (snd (snd (abi_decode (take (length blob - length MAGIC_SUFFIX) blob))))
      else None)"

subsection \<open>Batches and asset transfers\<close>

text \<open>
  A call of a contract method through a signer is handed to the library's contract
  object; it is kept as what is handed over: the signer, the contract's address, the
  method, its arguments and the overrides.
\<close>

record 'b invocation =
  via :: "'b ZeroDevSigner_scheme"
  contract :: string
  method_name :: string
  args :: "abi_arg list"
  override_gasLimit :: "bignumberish option"
  override_gasPrice :: "bignumberish option"

record batch_options =
  opt_gasLimit :: "bignumberish option"
  opt_gasPrice :: "bignumberish option"
  multiSendAddress :: "string option"

text \<open>
  \<open>execBatch\<close>. \<open>MULTISEND_ADDR\<close> is a constant of the multisend module, which is not
  among the sources, and is a parameter.
\<close>

definition execBatch ::
  "string \<Rightarrow> 'a store \<Rightarrow> 'b ZeroDevSigner_scheme \<Rightarrow> call list \<Rightarrow> batch_options option
     \<Rightarrow> 'a store \<times> 'b invocation" where
  "execBatch MULTISEND_ADDR st this calls options =
     (case delegateCopy st this of
        (st', delegateSigner) \<Rightarrow>
          (st',
           \<lparr>via = delegateSigner,
            contract = (case options of
                          None \<Rightarrow> MULTISEND_ADDR
                        | Some opts \<Rightarrow> (case multiSendAddress opts of
                                         None \<Rightarrow> MULTISEND_ADDR
                                       | Some a \<Rightarrow> a)),
            method_name = ''multiSend'',
            args = [DataArg (EncodeMultiSend calls)],
            override_gasLimit = (case options of None \<Rightarrow> None | Some opts \<Rightarrow> opt_gasLimit opts),
            override_gasPrice = (case options of None \<Rightarrow> None | Some opts \<Rightarrow> opt_gasPrice opts)\<rparr>))"

datatype AssetType = ETH | ERC20 | ERC721 | ERC1155

record AssetTransfer =
  assetType :: AssetType
  asset_address :: "string option"
  tokenId :: "bignumberish option"
  amount :: "bignumberish option"

text \<open>
  The amount to move: the asset's own \<open>amount\<close> when it is truthy, otherwise the
  balance read from the chain at that moment.
\<close>

definition amount_or ::
  "bignumberish option \<Rightarrow> int \<Rightarrow> chain_read \<Rightarrow> bignumberish \<times> chain_read list" where
  "amount_or a balance r =
     (case a of
        Some v \<Rightarrow> if truthy (Some v) then (v, []) else (BigNumber balance, [r])
      | None \<Rightarrow> (BigNumber balance, [r]))"

text \<open>
  The body of the \<open>map\<close> in \<open>transferAllAssets\<close>: the reads made for one asset and its
  call. A token asset without address, and a token id that is missing where one is
  encoded, are rejected by the library before anything is read.
\<close>

definition asset_call ::
  "chain \<Rightarrow> string \<Rightarrow> string \<Rightarrow> AssetTransfer \<Rightarrow> chain_read list \<times> (exn + call)" where
  "asset_call ch selfAddress dest asset =
     (case assetType asset of
        ETH \<Rightarrow>
          (case amount_or (amount asset) (balance_of ch selfAddress) (GetBalance selfAddress) of
             (v, reads) \<Rightarrow> (reads, Inr (Call dest v (Hex ''0x''))))
      | ERC20 \<Rightarrow>
          (case asset_address asset of
             None \<Rightarrow> ([], Inl InvalidArgument)
           | Some a \<Rightarrow>
               (case amount_or (amount asset) (erc20_balance ch a selfAddress)
                       (Erc20BalanceOf a selfAddress) of
                  (v, reads) \<Rightarrow>
                    (reads,
                     Inr (Call a (Number 0)
                            (FunctionData ''transfer'' [AddressArg dest, NumberArg v])))))
      | ERC721 \<Rightarrow>
          (case (asset_address asset, tokenId asset) of
             (Some a, Some t) \<Rightarrow>
               ([], Inr (Call a (Number 0)
                           (FunctionData ''transferFrom''
                              [AddressArg selfAddress, AddressArg dest, NumberArg t])))
           | _ \<Rightarrow> ([], Inl InvalidArgument))
      | ERC1155 \<Rightarrow>
          (case (asset_address asset, tokenId asset) of
             (Some a, Some t) \<Rightarrow>
               (case amount_or (amount asset) (erc1155_balance ch a selfAddress t)
                       (Erc1155BalanceOf a selfAddress t) of
                  (v, reads) \<Rightarrow>
                    (reads,
                     Inr (Call a (Number 0)
                            (FunctionData ''safeTransferFrom''
                               [AddressArg selfAddress, AddressArg dest, NumberArg t,
                                NumberArg v, DataArg (Hex ''0x'')]))))
           | _ \<Rightarrow> ([], Inl InvalidArgument)))"

text \<open>
  \<open>Promise.all\<close> over the mapped assets: every asset's reads are made, in the order of
  the assets; the calls come back in that order, or the batch is rejected.
\<close>

fun await_all :: "(chain_read list \<times> (exn + call)) list \<Rightarrow> chain_read list \<times> (exn + call list)" where
  "await_all [] = ([], Inr [])"
| "await_all ((reads, r) # rest) =
     (case await_all rest of
        (reads', rs) \<Rightarrow>
          (reads @ reads',
           (case r of
              Inl e \<Rightarrow> Inl e
            | Inr c \<Rightarrow> (case rs of Inl e \<Rightarrow> Inl e | Inr cs \<Rightarrow> Inr (c # cs)))))"

definition transferAllAssets ::
  "string \<Rightarrow> chain \<Rightarrow> string \<Rightarrow> 'a store \<Rightarrow> 'b ZeroDevSigner_scheme \<Rightarrow> string
     \<Rightarrow> AssetTransfer list \<Rightarrow> batch_options option
     \<Rightarrow> chain_read list \<times> 'a store \<times> 'b ZeroDevSigner_scheme \<times> (exn + 'b invocation)" where
  "transferAllAssets MULTISEND_ADDR ch senderAccountAddress st this dest assets options =
     (case getAddress senderAccountAddress this of
        (selfAddress, this1) \<Rightarrow>
          (case await_all (map (asset_call ch selfAddress dest) assets) of
             (reads, Inl e) \<Rightarrow> (reads, st, this1, Inl e)
           | (reads, Inr awaitedCall) \<Rightarrow>
               (case execBatch MULTISEND_ADDR st this1 awaitedCall options of
                  (st', sent) \<Rightarrow> (reads, st', this1, Inr sent))))"

subsection \<open>transferOwnership\<close>

text \<open>
  The library's \<open>hexZeroPad\<close> on a hex text: a text longer than the wanted length
  is rejected, a shorter one gets one zero digit after the \<open>0x\<close> at a time until it
  has the length.
\<close>

function zero_pad_loop :: "string \<Rightarrow> nat \<Rightarrow> string" where
  "zero_pad_loop v n =
     (if length v < 2 * n + 2 then zero_pad_loop (''0x0'' @ drop 2 v) n else v)"
  by pat_completeness auto
termination
  by (relation "measure (\<lambda>(v, n). 2 * n + 2 - length v)") auto

definition hexZeroPad :: "string \<Rightarrow> nat \<Rightarrow> exn + string" where
  "hexZeroPad v n =
     (if length v > 2 * n + 2 then Inl InvalidArgument
      else Inr (zero_pad_loop v n))"

definition transferOwnership ::
  "chain \<Rightarrow> string \<Rightarrow> 'b ZeroDevSigner_scheme \<Rightarrow> string
     \<Rightarrow> chain_read list \<times> 'b ZeroDevSigner_scheme \<times> (exn + 'b invocation)" where
  "transferOwnership ch senderAccountAddress this newOwner =
     (case getAddress senderAccountAddress this of
        (selfAddress, this1) \<Rightarrow>
          (let owners = owners_of ch selfAddress;
               reads = [GetOwners selfAddress]
           in if length owners \<noteq> 1
              then (reads, this1,
                    Inl (NewError ''transferOwnership is only supported for single-owner safes''))
              else (case hexZeroPad ''0x01'' 20 of
                      Inl e \<Rightarrow> (reads, this1, Inl e)
                    | Inr prevOwner \<Rightarrow>
                        (reads, this1,
                         Inr \<lparr>via = this1,
                              contract = selfAddress,
                              method_name = ''swapOwner'',
                              args = [AddressArg prevOwner, AddressArg (originalSigner this1),
                                      AddressArg newOwner],
                              override_gasLimit = Some (Number 200000),
                              override_gasPrice = None\<rparr>))))"

section \<open>Concrete inputs\<close>

text \<open>
  A chain on which no code is deployed, an account API that has not seen its account
  deployed, and a signer that has not asked for its address yet.
\<close>

definition ex_chain :: chain where
  "ex_chain =
     \<lparr>code_at = (\<lambda>a. ''0x''), nonce_of = (\<lambda>a. 7), owners_of = (\<lambda>a. [''0xowner'']),
      balance_of = (\<lambda>a. 100), erc20_balance = (\<lambda>t a. 42), erc1155_balance = (\<lambda>t a i. 3)\<rparr>"

definition ex_api :: GnosisAccountAPI where
  "ex_api =
     \<lparr>factoryAddress = Some ''0xfac'', owner = ''0xowner'', index = 0, accountContract = None,
      factory = None, accountAddress = ''0xacct'', isPhantom = True, delegateMode = False\<rparr>"

definition ex_signer :: ZeroDevSigner where
  "ex_signer = \<lparr>smartAccountAPI = 0, address = None, originalSigner = ''0xorig''\<rparr>"

text \<open>
  A relay error without body and two with one; collaborators that all answer, but for
  the relay client's submission, which fails with the error it is given; a request with
  a recipient and nothing to send.
\<close>

definition ex_error :: js_error where
  "ex_error = \<lparr>message = ''request failed'', stack = Some ''at relay'', body = None\<rparr>"

definition ex_error_unmatched :: js_error where
  \<open>ex_error_unmatched =
     ex_error\<lparr>body := Some ''{"error":{"message":"insufficient funds"}}''\<rparr>\<close>

definition ex_error_failedOp :: js_error where
  \<open>ex_error_failedOp =
     ex_error\<lparr>body := Some ''{"error":{"message":"FailedOp(0,0xPAYMASTER,AA21 didn't pay prefund)"}}''\<rparr>\<close>

definition ex_userOp :: UserOperationStruct where
  "ex_userOp =
     \<lparr>sender = ''0xacct'', nonce = Number 0, initCode = ''0x'', callData = ''0x'',
      callGasLimit = Number 0, verificationGasLimit = Number 0, preVerificationGas = Number 0,
      op_maxFeePerGas = Number 0, op_maxPriorityFeePerGas = Number 0,
      paymasterAndData = ''0x'', signature = ''0x''\<rparr>"

definition ex_collaborators :: "js_error \<Rightarrow> collaborators" where
  "ex_collaborators relay_error =
     \<lparr>checkTransaction = (\<lambda>tx. Inr tx),
      createUnsignedUserOp = (\<lambda>d. Inr ex_userOp),
      estimateUserOpGas =
        (\<lambda>op. Inr \<lparr>gas_preVerificationGas = 1, gas_verificationGas = 2, gas_callGasLimit = 3\<rparr>),
      createSignedUserOp = (\<lambda>d. Inr ex_userOp),
      constructUserOpTransactionResponse = (\<lambda>op. Inr \<lparr>hash = ''0xhash''\<rparr>),
      transactionStarted = None,
      getModuleInfo = (\<lambda>tx. None),
      sendUserOpToBundler = (\<lambda>op. Inl relay_error),
      JSON_parse = json_parse\<rparr>"

definition ex_request :: TransactionRequest where
  "ex_request =
     \<lparr>to = Some ''0xrecipient'', tx_from = None, data = None, tx_value = None,
      gasLimit = None, gasPrice = None, maxFeePerGas = None, maxPriorityFeePerGas = None\<rparr>"

section \<open>Properties\<close>

subsection \<open>Nonce selection\<close>

text \<open>
  C2. While the account is Phantom (the cached state is Phantom and no code is found at
  the account's address), \<open>getNonce\<close> is 0, the only read made is the one of the code,
  and the nonce is not read. Otherwise the account is Deployed and \<open>getNonce\<close> is the
  nonce the chain holds for the account contract, read last.
\<close>

theorem getNonce_phantom_zero:
  "(isPhantom api \<and> length (code_at ch (accountAddress api)) \<le> 2 \<longrightarrow>
      getNonce ch api = (0, api, [GetCode (accountAddress api)])
      \<and> (\<forall>a. ReadNonce a \<notin> set (snd (snd (getNonce ch api)))))
   \<and> (\<not> (isPhantom api \<and> length (code_at ch (accountAddress api)) \<le> 2) \<longrightarrow>
      fst (getNonce ch api)
        = nonce_of ch (case accountContract api of None \<Rightarrow> accountAddress api | Some a \<Rightarrow> a)
      \<and> last (snd (snd (getNonce ch api)))
        = ReadNonce (case accountContract api of None \<Rightarrow> accountAddress api | Some a \<Rightarrow> a)
      \<and> \<not> isPhantom (fst (snd (getNonce ch api))))"
  by (auto simp: getNonce_def checkAccountPhantom_def getAccountContract_def split: option.splits)

theorem getNonce_phantom_zero_witness:
  "isPhantom ex_api \<and> length (code_at ex_chain (accountAddress ex_api)) \<le> 2
   \<and> getNonce ex_chain ex_api = (0, ex_api, [GetCode ''0xacct''])
   \<and> \<not> (isPhantom (ex_api\<lparr>isPhantom := False\<rparr>)
          \<and> length (code_at ex_chain (accountAddress (ex_api\<lparr>isPhantom := False\<rparr>))) \<le> 2)
   \<and> fst (getNonce ex_chain (ex_api\<lparr>isPhantom := False\<rparr>)) = 7"
  using getNonce_phantom_zero [of ex_api ex_chain]
    getNonce_phantom_zero [of "ex_api\<lparr>isPhantom := False\<rparr>" ex_chain]
  by (simp add: ex_api_def ex_chain_def)

subsection \<open>Ownership transfer\<close>

lemma hexZeroPad_one:
  "hexZeroPad ''0x01'' 20 = Inr ''0x0000000000000000000000000000000000000001''"
  by code_simp

text \<open>
  C10. When the safe's owner list does not hold exactly one owner, \<open>transferOwnership\<close>
  throws its error after the one read of the owners, and hands no call to the safe.
  When it holds exactly one owner, \<open>swapOwner\<close> is called on the safe with the previous
  owner \<open>0x0000000000000000000000000000000000000001\<close>, the original signer's address
  and the new owner, under a gas limit of 200000.
\<close>

theorem transferOwnership_single_owner:
  "(length (owners_of ch (fst (getAddress sa this))) \<noteq> 1 \<longrightarrow>
      transferOwnership ch sa this newOwner
        = ([GetOwners (fst (getAddress sa this))], snd (getAddress sa this),
           Inl (NewError ''transferOwnership is only supported for single-owner safes'')))
   \<and> (length (owners_of ch (fst (getAddress sa this))) = 1 \<longrightarrow>
      transferOwnership ch sa this newOwner
        = ([GetOwners (fst (getAddress sa this))], snd (getAddress sa this),
           Inr \<lparr>via = snd (getAddress sa this),
                contract = fst (getAddress sa this),
                method_name = ''swapOwner'',
                args = [AddressArg ''0x0000000000000000000000000000000000000001'',
                        AddressArg (originalSigner this), AddressArg newOwner],
                override_gasLimit = Some (Number 200000),
                override_gasPrice = None\<rparr>))"
  by (auto simp: transferOwnership_def hexZeroPad_one getAddress_def
           split: prod.splits option.splits)

theorem transferOwnership_single_owner_witness:
  "length (owners_of ex_chain (fst (getAddress ''0xacct'' ex_signer))) = 1
   \<and> snd (snd (transferOwnership ex_chain ''0xacct'' ex_signer ''0xnew''))
       = Inr \<lparr>via = ex_signer\<lparr>address := Some ''0xacct''\<rparr>,
              contract = ''0xacct'',
              method_name = ''swapOwner'',
              args = [AddressArg ''0x0000000000000000000000000000000000000001'',
                      AddressArg ''0xorig'', AddressArg ''0xnew''],
              override_gasLimit = Some (Number 200000),
              override_gasPrice = None\<rparr>
   \<and> length (owners_of (ex_chain\<lparr>owners_of := (\<lambda>a. [''0xone'', ''0xtwo''])\<rparr>)
               (fst (getAddress ''0xacct'' ex_signer))) \<noteq> 1
   \<and> snd (snd (transferOwnership (ex_chain\<lparr>owners_of := (\<lambda>a. [''0xone'', ''0xtwo''])\<rparr>)
                  ''0xacct'' ex_signer ''0xnew''))
       = Inl (NewError ''transferOwnership is only supported for single-owner safes'')"
  using transferOwnership_single_owner [of ex_chain "''0xacct''" ex_signer "''0xnew''"]
    transferOwnership_single_owner
      [of "ex_chain\<lparr>owners_of := (\<lambda>a. [''0xone'', ''0xtwo''])\<rparr>" "''0xacct''" ex_signer "''0xnew''"]
  by (simp add: ex_chain_def ex_signer_def getAddress_def)

subsection \<open>The delegate copy\<close>

text \<open>
  C7. \<open>delegateCopy\<close> returns a signer around a new account API object that equals the
  original's in every field but \<open>delegateMode\<close>, which is set; the new signer has the
  same original signer, configuration, provider and relay client. Every object that was
  in the store, the original's account API and its \<open>delegateMode\<close> among them, is as
  it was.
\<close>

theorem delegateCopy_frame:
  assumes "smartAccountAPI this < length st"
  shows "(case delegateCopy st this of
            (st', copy) \<Rightarrow>
              smartAccountAPI copy < length st'
              \<and> st' ! smartAccountAPI copy = (st ! smartAccountAPI this)\<lparr>delegateMode := True\<rparr>
              \<and> smartAccountAPI copy \<noteq> smartAccountAPI this
              \<and> length st' = Suc (length st)
              \<and> (\<forall>i < length st. st' ! i = st ! i)
              \<and> st' ! smartAccountAPI this = st ! smartAccountAPI this
              \<and> delegateMode (st' ! smartAccountAPI this) = delegateMode (st ! smartAccountAPI this)
              \<and> originalSigner copy = originalSigner this
              \<and> ZeroDevSigner.more copy = ZeroDevSigner.more this)"
  using assms by (simp add: delegateCopy_def Let_def nth_append)

theorem delegateCopy_frame_witness:
  "smartAccountAPI ex_signer < length [ex_api]
   \<and> delegateCopy [ex_api] ex_signer
       = ([ex_api, ex_api\<lparr>delegateMode := True\<rparr>], ex_signer\<lparr>smartAccountAPI := 1\<rparr>)
   \<and> delegateMode ([ex_api, ex_api\<lparr>delegateMode := True\<rparr>] ! smartAccountAPI ex_signer) = False"
  using delegateCopy_frame [of ex_signer "[ex_api]"]
  by (simp add: delegateCopy_def ex_signer_def ex_api_def)

subsection \<open>The asset sweep\<close>

text \<open>
  C8. For the assets ETH with amount 5 and the token X without amount, and the
  destination D, \<open>transferAllAssets\<close> hands exactly two calls to the batch: 5 sent to D
  with the empty data \<open>0x\<close>, and a call of X with no value whose data encodes
  \<open>transfer(D, balance)\<close>, the balance being the one the chain holds for the account
  when the calls are built: it is read from the token contract, the only read made.
  The batch goes to \<open>multiSend\<close> through a delegate copy of the signer.
\<close>

theorem transferAllAssets_eth_erc20:
  "transferAllAssets M ch sa st this D
     [\<lparr>assetType = ETH, asset_address = a0, tokenId = t0, amount = Some (Number 5)\<rparr>,
      \<lparr>assetType = ERC20, asset_address = Some X, tokenId = t1, amount = None\<rparr>] options
   = ([Erc20BalanceOf X (fst (getAddress sa this))],
      fst (delegateCopy st (snd (getAddress sa this))),
      snd (getAddress sa this),
      Inr (snd (execBatch M st (snd (getAddress sa this))
             [Call D (Number 5) (Hex ''0x''),
              Call X (Number 0)
                (FunctionData ''transfer''
                   [AddressArg D,
                    NumberArg (BigNumber (erc20_balance ch X (fst (getAddress sa this))))])]
             options)))
   \<and> args (snd (execBatch M st (snd (getAddress sa this))
             [Call D (Number 5) (Hex ''0x''),
              Call X (Number 0)
                (FunctionData ''transfer''
                   [AddressArg D,
                    NumberArg (BigNumber (erc20_balance ch X (fst (getAddress sa this))))])]
             options))
     = [DataArg (EncodeMultiSend
         [Call D (Number 5) (Hex ''0x''),
          Call X (Number 0)
            (FunctionData ''transfer''
               [AddressArg D,
                NumberArg (BigNumber (erc20_balance ch X (fst (getAddress sa this))))])])]"
  by (simp add: transferAllAssets_def asset_call_def amount_or_def execBatch_def
        split: prod.splits)

subsection \<open>The init code\<close>

lemma override_factory_eq:
  "override_factory addrs ownerAddress api =
     (if toLowerCase ownerAddress \<in> set (map toLowerCase addrs)
      then api\<lparr>factoryAddress := Some migrated_factory\<rparr> else api)"
  by (induction addrs arbitrary: api) auto

text \<open>
  C9, as the code has it. For an owner whose address equals, without regard to case,
  one of the four hardcoded addresses, \<open>getAccountInitCode\<close> leaves the API with the
  factory address \<open>0x5d7a58eFbC95f5b3Da446D9496D73a6E9D57b0a4\<close>. With no factory
  connected yet, the init code is built on that address, the factory is connected there,
  and the next call answers the same; a factory that is already connected is kept, and
  the init code is built on its address. For every other owner the factory address is
  left as it was, and the factory used is the connected one, or else the configured
  one; with no factory connected and none configured the call throws. An init code that
  is returned is the concatenation of the address of the factory used and the encoded
  \<open>createAccount(owner, index)\<close>; an index the encoder does not take is rejected.
\<close>

theorem getAccountInitCode_factory:
  "(toLowerCase (owner api) \<in> set (map toLowerCase migrated_owners) \<longrightarrow>
      factoryAddress (snd (getAccountInitCode api)) = Some migrated_factory
      \<and> (factory api = None \<longrightarrow>
           getAccountInitCode api
             = ((if 0 \<le> index api \<and> index api < 0x1FFFFFFFFFFFFF
                 then Inr (HexConcat [Hex migrated_factory,
                             FunctionData ''createAccount''
                               [AddressArg (owner api), NumberArg (Number (index api))]])
                 else Inl InvalidArgument),
                api\<lparr>factoryAddress := Some migrated_factory, factory := Some migrated_factory\<rparr>)
           \<and> fst (getAccountInitCode (snd (getAccountInitCode api)))
             = fst (getAccountInitCode api))
      \<and> (\<forall>f. factory api = Some f \<longrightarrow>
           getAccountInitCode api
             = ((if 0 \<le> index api \<and> index api < 0x1FFFFFFFFFFFFF
                 then Inr (HexConcat [Hex f,
                             FunctionData ''createAccount''
                               [AddressArg (owner api), NumberArg (Number (index api))]])
                 else Inl InvalidArgument),
                api\<lparr>factoryAddress := Some migrated_factory\<rparr>)
           \<and> fst (getAccountInitCode (snd (getAccountInitCode api)))
             = fst (getAccountInitCode api)))
   \<and> (toLowerCase (owner api) \<notin> set (map toLowerCase migrated_owners) \<longrightarrow>
      factoryAddress (snd (getAccountInitCode api)) = factoryAddress api
      \<and> fst (getAccountInitCode api)
        = (case factory api of
             Some f \<Rightarrow>
               if 0 \<le> index api \<and> index api < 0x1FFFFFFFFFFFFF
               then Inr (HexConcat [Hex f,
                           FunctionData ''createAccount''
                             [AddressArg (owner api), NumberArg (Number (index api))]])
               else Inl InvalidArgument
           | None \<Rightarrow>
               (case factoryAddress api of
                  Some fa \<Rightarrow>
                    if fa = [] then Inl (NewError ''no factory to get initCode'')
                    else if 0 \<le> index api \<and> index api < 0x1FFFFFFFFFFFFF
                    then Inr (HexConcat [Hex fa,
                                FunctionData ''createAccount''
                                  [AddressArg (owner api), NumberArg (Number (index api))]])
                    else Inl InvalidArgument
                | None \<Rightarrow> Inl (NewError ''no factory to get initCode''))))"
  by (auto simp: getAccountInitCode_def override_factory_eq createAccount_code_def
        encodable_number_def Let_def migrated_factory_def split: option.splits)

theorem getAccountInitCode_factory_witness:
  "toLowerCase (owner (ex_api\<lparr>owner := ''0x0D68ADA5BA372A508CD76F46000292028E64B1F8''\<rparr>))
     \<in> set (map toLowerCase migrated_owners)
   \<and> factory (ex_api\<lparr>owner := ''0x0D68ADA5BA372A508CD76F46000292028E64B1F8''\<rparr>) = None
   \<and> fst (getAccountInitCode (ex_api\<lparr>owner := ''0x0D68ADA5BA372A508CD76F46000292028E64B1F8''\<rparr>))
       = Inr (HexConcat [Hex ''0x5d7a58eFbC95f5b3Da446D9496D73a6E9D57b0a4'',
                FunctionData ''createAccount''
                  [AddressArg ''0x0D68ADA5BA372A508CD76F46000292028E64B1F8'', NumberArg (Number 0)]])
   \<and> factory (ex_api\<lparr>owner := ''0x0D68ADA5BA372A508CD76F46000292028E64B1F8'',
                     factory := Some ''0xfac''\<rparr>) = Some ''0xfac''
   \<and> fst (getAccountInitCode (ex_api\<lparr>owner := ''0x0D68ADA5BA372A508CD76F46000292028E64B1F8'',
                                      factory := Some ''0xfac''\<rparr>))
       = Inr (HexConcat [Hex ''0xfac'',
                FunctionData ''createAccount''
                  [AddressArg ''0x0D68ADA5BA372A508CD76F46000292028E64B1F8'', NumberArg (Number 0)]])
   \<and> toLowerCase (owner ex_api) \<notin> set (map toLowerCase migrated_owners)
   \<and> fst (getAccountInitCode ex_api)
       = Inr (HexConcat [Hex ''0xfac'',
                FunctionData ''createAccount'' [AddressArg ''0xowner'', NumberArg (Number 0)]])
   \<and> fst (getAccountInitCode (ex_api\<lparr>index := - 1\<rparr>)) = Inl InvalidArgument"
proof -
  have m: "toLowerCase (owner (ex_api\<lparr>owner := ''0x0D68ADA5BA372A508CD76F46000292028E64B1F8''\<rparr>))
             \<in> set (map toLowerCase migrated_owners)"
    by code_simp
  then have m': "toLowerCase (owner (ex_api\<lparr>owner := ''0x0D68ADA5BA372A508CD76F46000292028E64B1F8'',
                     factory := Some ''0xfac''\<rparr>))
             \<in> set (map toLowerCase migrated_owners)"
    by simp
  have n: "toLowerCase (owner ex_api) \<notin> set (map toLowerCase migrated_owners)"
    by code_simp
  then have n': "toLowerCase (owner (ex_api\<lparr>index := - 1\<rparr>)) \<notin> set (map toLowerCase migrated_owners)"
    by simp
  have f: "factory (ex_api\<lparr>owner := ''0x0D68ADA5BA372A508CD76F46000292028E64B1F8''\<rparr>) = None"
    by (simp add: ex_api_def)
  have g: "factory (ex_api\<lparr>owner := ''0x0D68ADA5BA372A508CD76F46000292028E64B1F8'',
                     factory := Some ''0xfac''\<rparr>) = Some ''0xfac''"
    by simp
  from getAccountInitCode_factory
         [of "ex_api\<lparr>owner := ''0x0D68ADA5BA372A508CD76F46000292028E64B1F8''\<rparr>"] m f
  have a: "fst (getAccountInitCode (ex_api\<lparr>owner := ''0x0D68ADA5BA372A508CD76F46000292028E64B1F8''\<rparr>))
       = Inr (HexConcat [Hex ''0x5d7a58eFbC95f5b3Da446D9496D73a6E9D57b0a4'',
                FunctionData ''createAccount''
                  [AddressArg ''0x0D68ADA5BA372A508CD76F46000292028E64B1F8'', NumberArg (Number 0)]])"
    by (simp add: ex_api_def migrated_factory_def)
  from getAccountInitCode_factory
         [of "ex_api\<lparr>owner := ''0x0D68ADA5BA372A508CD76F46000292028E64B1F8'',
                     factory := Some ''0xfac''\<rparr>"] m' g
  have c: "fst (getAccountInitCode (ex_api\<lparr>owner := ''0x0D68ADA5BA372A508CD76F46000292028E64B1F8'',
                                      factory := Some ''0xfac''\<rparr>))
       = Inr (HexConcat [Hex ''0xfac'',
                FunctionData ''createAccount''
                  [AddressArg ''0x0D68ADA5BA372A508CD76F46000292028E64B1F8'', NumberArg (Number 0)]])"
    by (simp add: ex_api_def)
  from getAccountInitCode_factory [of ex_api] n
  have b: "fst (getAccountInitCode ex_api)
       = Inr (HexConcat [Hex ''0xfac'',
                FunctionData ''createAccount'' [AddressArg ''0xowner'', NumberArg (Number 0)]])"
    by (simp add: ex_api_def)
  from getAccountInitCode_factory [of "ex_api\<lparr>index := - 1\<rparr>"] n'
  have d: "fst (getAccountInitCode (ex_api\<lparr>index := - 1\<rparr>)) = Inl InvalidArgument"
    by (simp add: ex_api_def)
  from m n f g a b c d show ?thesis by blast
qed

lemma migrated_example:
  "toLowerCase ''0x0D68ADA5BA372A508CD76F46000292028E64B1F8'' \<in> set (map toLowerCase migrated_owners)"
  by code_simp

text \<open>
  The claim as it was stated fails on an API of a migrated owner whose factory is
  already connected at another address: the factory address is overwritten, but the
  init code of this call and of the next is built on the connected factory, not on the
  override.
\<close>

theorem getAccountInitCode_factory_counterexample:
  "toLowerCase (owner (ex_api\<lparr>owner := ''0x0D68ADA5BA372A508CD76F46000292028E64B1F8'',
                             factory := Some ''0xfac''\<rparr>))
     \<in> set (map toLowerCase migrated_owners)
   \<and> getAccountInitCode (ex_api\<lparr>owner := ''0x0D68ADA5BA372A508CD76F46000292028E64B1F8'',
                                 factory := Some ''0xfac''\<rparr>)
       = (Inr (HexConcat [Hex ''0xfac'',
                 FunctionData ''createAccount''
                   [AddressArg ''0x0D68ADA5BA372A508CD76F46000292028E64B1F8'', NumberArg (Number 0)]]),
          ex_api\<lparr>owner := ''0x0D68ADA5BA372A508CD76F46000292028E64B1F8'',
                  factory := Some ''0xfac'',
                  factoryAddress := Some ''0x5d7a58eFbC95f5b3Da446D9496D73a6E9D57b0a4''\<rparr>)
   \<and> fst (getAccountInitCode
            (snd (getAccountInitCode
                    (ex_api\<lparr>owner := ''0x0D68ADA5BA372A508CD76F46000292028E64B1F8'',
                             factory := Some ''0xfac''\<rparr>))))
       = Inr (HexConcat [Hex ''0xfac'',
                FunctionData ''createAccount''
                  [AddressArg ''0x0D68ADA5BA372A508CD76F46000292028E64B1F8'', NumberArg (Number 0)]])
   \<and> ''0xfac'' \<noteq> ''0x5d7a58eFbC95f5b3Da446D9496D73a6E9D57b0a4''"
  using migrated_example
  by (simp add: getAccountInitCode_def override_factory_eq createAccount_code_def
        encodable_number_def Let_def migrated_factory_def ex_api_def)

subsection \<open>Error translation\<close>

lemma match_FailedOp_includes: "match_FailedOp m = Some g \<Longrightarrow> str_includes m ''FailedOp''"
proof (induction m)
  case Nil
  then show ?case by simp
next
  case (Cons c cs)
  show ?case
  proof (cases "prefix ''FailedOp('' (c # cs)")
    case True
    then have "prefix ''FailedOp'' (c # cs)"
      by (auto simp: prefix_def)
    then show ?thesis by simp
  next
    case False
    then have "match_FailedOp (c # cs) = match_FailedOp cs"
      by (simp only: match_FailedOp.simps if_False)
    with Cons.prems have "match_FailedOp cs = Some g"
      by (simp only:)
    then have "str_includes cs ''FailedOp''"
      by (rule Cons.IH)
    then show ?thesis
      by (simp only: str_includes.simps simp_thms)
  qed
qed

lemma translate_string:
  "translate_message errorIn (Val (JString m))
     = (case match_FailedOp m of
          None \<Rightarrow> Inr (generic_error errorIn m [])
        | Some g \<Rightarrow>
            Inr (generic_error errorIn (field_text (split_comma g) 2)
                   (''(paymaster address: '' @ field_text (split_comma g) 1 @ '')'')))"
proof (cases "match_FailedOp m")
  case None
  then show ?thesis by (simp add: translate_message_def)
next
  case (Some g)
  then show ?thesis
    by (simp add: translate_message_def match_FailedOp_includes Let_def)
qed

lemma json_parse_unmatched:
  \<open>json_parse ''{"error":{"message":"insufficient funds"}}''
     = Some (JObject [(''error'', JObject [(''message'', JString ''insufficient funds'')])])\<close>
  by code_simp

lemma json_parse_failedOp:
  \<open>json_parse ''{"error":{"message":"FailedOp(0,0xPAYMASTER,AA21 didn't pay prefund)"}}''
     = Some (JObject [(''error'', JObject [(''message'',
         JString ''FailedOp(0,0xPAYMASTER,AA21 didn't pay prefund)'')])])\<close>
  by code_simp

lemma match_unmatched: "match_FailedOp ''insufficient funds'' = None"
  by code_simp

lemma match_failedOp:
  "match_FailedOp ''FailedOp(0,0xPAYMASTER,AA21 didn't pay prefund)''
     = Some ''0,0xPAYMASTER,AA21 didn't pay prefund''"
  by code_simp

lemma split_failedOp:
  "split_comma ''0,0xPAYMASTER,AA21 didn't pay prefund''
     = [''0'', ''0xPAYMASTER'', ''AA21 didn't pay prefund'']"
  by code_simp

lemma translate_failedOp:
  "translate_message errorIn
     (Val (JString ''FailedOp(0,0xPAYMASTER,AA21 didn't pay prefund)''))
   = Inr (generic_error errorIn ''AA21 didn't pay prefund'' ''(paymaster address: 0xPAYMASTER)'')"
  unfolding translate_string match_failedOp split_failedOp
  by (simp add: field_text_def)

text \<open>
  C1, as the code has it. A relay error without body comes back from \<open>unwrapError\<close> as
  it is, and \<open>sendTransaction\<close> throws that very error when the submission fails with
  it. A body that parses and whose nested message is a text not matching
  \<open>FailedOp(...)\<close>, or is missing, is not passed on: the result is a new error whose
  message is the bundler text followed by the nested message (or \<open>undefined\<close>), with
  the stack of the original.
\<close>

theorem unwrapError_unmatched:
  "(body errorIn = None \<longrightarrow> unwrapError parse errorIn = Inr errorIn)
   \<and> (body errorIn = Some b \<and> parse b = Some errorBody
        \<and> get_prop (get_prop (Val errorBody) ''error'') ''message'' = Val (JString m)
        \<and> match_FailedOp m = None \<longrightarrow>
      unwrapError parse errorIn
        = Inr \<lparr>message = ''The bundler has failed to include UserOperation in a batch: ''
                          @ m @ '' )'',
               stack = stack errorIn, body = None\<rparr>)
   \<and> (body errorIn = Some b \<and> parse b = Some errorBody
        \<and> get_prop (get_prop (Val errorBody) ''error'') ''message'' = Undefined \<longrightarrow>
      unwrapError parse errorIn
        = Inr \<lparr>message = ''The bundler has failed to include UserOperation in a batch: undefined )'',
               stack = stack errorIn, body = None\<rparr>)
   \<and> (sendUserOpToBundler c userOperation = Inl errorIn \<and> body errorIn = None \<longrightarrow>
      submit c userOperation = ([SendUserOpToBundler userOperation], Inl (ErrorObject errorIn)))
   \<and> (populate (zero_fees transaction) = (ev0, Inr tx)
        \<and> verifyAllNecessaryFields tx = Inr ()
        \<and> createSignedUserOp c (signed_details tx) = Inr userOperation
        \<and> constructUserOpTransactionResponse c userOperation = Inr transactionResponse
        \<and> invoke_hook c tx userOperation transactionResponse = (ev3, Inr ())
        \<and> sendUserOpToBundler c userOperation = Inl errorIn \<and> body errorIn = None \<longrightarrow>
      sendTransaction c populate transaction
        = (ev0 @ [CreateSignedUserOp (signed_details tx),
                  ConstructUserOpTransactionResponse userOperation]
             @ ev3 @ [SendUserOpToBundler userOperation],
           Inl (ErrorObject errorIn)))"
proof -
  have translation:
    "(body errorIn = None \<longrightarrow> unwrapError parse errorIn = Inr errorIn)
     \<and> (body errorIn = Some b \<and> parse b = Some errorBody
          \<and> get_prop (get_prop (Val errorBody) ''error'') ''message'' = Val (JString m)
          \<and> match_FailedOp m = None \<longrightarrow>
        unwrapError parse errorIn
          = Inr \<lparr>message = ''The bundler has failed to include UserOperation in a batch: ''
                            @ m @ '' )'',
                 stack = stack errorIn, body = None\<rparr>)
     \<and> (body errorIn = Some b \<and> parse b = Some errorBody
          \<and> get_prop (get_prop (Val errorBody) ''error'') ''message'' = Undefined \<longrightarrow>
        unwrapError parse errorIn
          = Inr \<lparr>message = ''The bundler has failed to include UserOperation in a batch: undefined )'',
                 stack = stack errorIn, body = None\<rparr>)"
    by (auto simp: unwrapError_def translate_string generic_error_def bundler_prefix_def
          translate_message_def)
  have thrown: "submit c userOperation
      = ([SendUserOpToBundler userOperation], Inl (ErrorObject errorIn))"
    if "sendUserOpToBundler c userOperation = Inl errorIn" and "body errorIn = None"
    using that by (simp add: submit_def unwrapError_def)
  have sent: "sendTransaction c populate transaction
        = (ev0 @ [CreateSignedUserOp (signed_details tx),
                  ConstructUserOpTransactionResponse userOperation]
             @ ev3 @ [SendUserOpToBundler userOperation],
           Inl (ErrorObject errorIn))"
    if "populate (zero_fees transaction) = (ev0, Inr tx)"
      and "verifyAllNecessaryFields tx = Inr ()"
      and "createSignedUserOp c (signed_details tx) = Inr userOperation"
      and "constructUserOpTransactionResponse c userOperation = Inr transactionResponse"
      and "invoke_hook c tx userOperation transactionResponse = (ev3, Inr ())"
      and "sendUserOpToBundler c userOperation = Inl errorIn" and "body errorIn = None"
    using that by (simp add: sendTransaction_def Let_def thrown)
  from translation thrown sent show ?thesis by blast
qed

theorem unwrapError_unmatched_witness:
  \<open>body ex_error = None \<and> unwrapError json_parse ex_error = Inr ex_error
   \<and> body ex_error_unmatched = Some ''{"error":{"message":"insufficient funds"}}''
   \<and> match_FailedOp ''insufficient funds'' = None
   \<and> unwrapError json_parse ex_error_unmatched
       = Inr \<lparr>message = ''The bundler has failed to include UserOperation in a batch: insufficient funds )'',
              stack = Some ''at relay'', body = None\<rparr>
   \<and> unwrapError json_parse (ex_error\<lparr>body := Some ''{}''\<rparr>)
       = Inr \<lparr>message = ''The bundler has failed to include UserOperation in a batch: undefined )'',
              stack = Some ''at relay'', body = None\<rparr>
   \<and> submit (ex_collaborators ex_error) ex_userOp
       = ([SendUserOpToBundler ex_userOp], Inl (ErrorObject ex_error))
   \<and> sendTransaction (ex_collaborators ex_error) (\<lambda>tx. ([], Inr tx))
         (ex_request\<lparr>tx_value := Some (Number 1)\<rparr>)
       = ([CreateSignedUserOp
             \<lparr>target = ''0xrecipient'', details_data = ''0x'', details_value = Some (Number 1),
              details_gasLimit = None, details_maxFeePerGas = None,
              details_maxPriorityFeePerGas = None\<rparr>,
           ConstructUserOpTransactionResponse ex_userOp,
           SendUserOpToBundler ex_userOp],
          Inl (ErrorObject ex_error))\<close>
proof -
  have e: "json_parse ''{}'' = Some (JObject [])"
    by code_simp
  note t1 = unwrapError_unmatched
    [of ex_error json_parse _ _ _ "ex_collaborators ex_error" ex_userOp
        "\<lambda>tx. ([], Inr tx)" "ex_request\<lparr>tx_value := Some (Number 1)\<rparr>" "[]"
        "zero_fees (ex_request\<lparr>tx_value := Some (Number 1)\<rparr>)" "\<lparr>hash = ''0xhash''\<rparr>" "[]"]
  note t2 = unwrapError_unmatched
    [of ex_error_unmatched json_parse _
        "JObject [(''error'', JObject [(''message'', JString ''insufficient funds'')])]"
        "''insufficient funds''"]
  note t3 = unwrapError_unmatched
    [of "ex_error\<lparr>body := Some ''{}''\<rparr>" json_parse "''{}''" "JObject []"]
  have a: "body ex_error = None"
    by (simp add: ex_error_def)
  have b: "unwrapError json_parse ex_error = Inr ex_error"
    using t1 a by blast
  have c: "submit (ex_collaborators ex_error) ex_userOp
       = ([SendUserOpToBundler ex_userOp], Inl (ErrorObject ex_error))"
    using t1 a by (simp add: ex_collaborators_def)
  have d: "unwrapError json_parse ex_error_unmatched
       = Inr \<lparr>message = ''The bundler has failed to include UserOperation in a batch: insufficient funds )'',
              stack = Some ''at relay'', body = None\<rparr>"
    using t2 by (simp add: ex_error_unmatched_def ex_error_def json_parse_unmatched match_unmatched)
  have f: "unwrapError json_parse (ex_error\<lparr>body := Some ''{}''\<rparr>)
       = Inr \<lparr>message = ''The bundler has failed to include UserOperation in a batch: undefined )'',
              stack = Some ''at relay'', body = None\<rparr>"
    using t3 by (simp add: ex_error_def e)
  have g: "body ex_error_unmatched = Some ''{\"error\":{\"message\":\"insufficient funds\"}}''"
    by (simp add: ex_error_unmatched_def)
  have h: "sendTransaction (ex_collaborators ex_error) (\<lambda>tx. ([], Inr tx))
         (ex_request\<lparr>tx_value := Some (Number 1)\<rparr>)
       = ([CreateSignedUserOp
             \<lparr>target = ''0xrecipient'', details_data = ''0x'', details_value = Some (Number 1),
              details_gasLimit = None, details_maxFeePerGas = None,
              details_maxPriorityFeePerGas = None\<rparr>,
           ConstructUserOpTransactionResponse ex_userOp,
           SendUserOpToBundler ex_userOp],
          Inl (ErrorObject ex_error))"
    using t1 a
    by (simp add: ex_collaborators_def ex_request_def zero_fees_def verifyAllNecessaryFields_def
          signed_details_def invoke_hook_def)
  from a b c d f g h match_unmatched show ?thesis by blast
qed

text \<open>
  The claim as it was stated fails on the body
  \<open>{"error":{"message":"insufficient funds"}}\<close>: the nested message does not match,
  and the error that comes back is not the original.
\<close>

theorem unwrapError_unmatched_counterexample:
  \<open>body ex_error_unmatched = Some ''{"error":{"message":"insufficient funds"}}''
   \<and> json_parse ''{"error":{"message":"insufficient funds"}}''
       = Some (JObject [(''error'', JObject [(''message'', JString ''insufficient funds'')])])
   \<and> match_FailedOp ''insufficient funds'' = None
   \<and> unwrapError json_parse ex_error_unmatched
       = Inr \<lparr>message = ''The bundler has failed to include UserOperation in a batch: insufficient funds )'',
              stack = Some ''at relay'', body = None\<rparr>
   \<and> unwrapError json_parse ex_error_unmatched \<noteq> Inr ex_error_unmatched\<close>
  by (simp add: json_parse_unmatched match_unmatched unwrapError_def translate_string
        generic_error_def bundler_prefix_def ex_error_unmatched_def ex_error_def)

text \<open>
  C5. When the nested message matches \<open>FailedOp(...)\<close> and the matched text has at
  least three fields between commas, the error that comes back carries field 2 as
  the reason and field 1 as the paymaster address, in its message
  \<open>The bundler has failed to include UserOperation in a batch: <reason> (paymaster
  address: <paymaster>))\<close>, with the stack of the original; the body of the spec's
  example gives the reason \<open>AA21 didn't pay prefund\<close> and the paymaster address
  \<open>0xPAYMASTER\<close>; and \<open>sendTransaction\<close> throws the translated error when the
  submission fails.
\<close>

theorem unwrapError_FailedOp:
  \<open>(body errorIn = Some b \<and> parse b = Some errorBody
      \<and> get_prop (get_prop (Val errorBody) ''error'') ''message'' = Val (JString m)
      \<and> match_FailedOp m = Some g
      \<and> split_comma g = i # paymaster # reason # rest \<longrightarrow>
    unwrapError parse errorIn
      = Inr \<lparr>message = ''The bundler has failed to include UserOperation in a batch: ''
                        @ reason @ '' (paymaster address: '' @ paymaster @ ''))'',
             stack = stack errorIn, body = None\<rparr>)
   \<and> unwrapError json_parse
        \<lparr>message = msg, stack = st,
         body = Some ''{"error":{"message":"FailedOp(0,0xPAYMASTER,AA21 didn't pay prefund)"}}''\<rparr>
      = Inr \<lparr>message = ''The bundler has failed to include UserOperation in a batch: AA21 didn't pay prefund (paymaster address: 0xPAYMASTER))'',
             stack = st, body = None\<rparr>
   \<and> (sendUserOpToBundler c userOperation = Inl errorIn
        \<and> unwrapError (JSON_parse c) errorIn = Inr translated \<longrightarrow>
      submit c userOperation = ([SendUserOpToBundler userOperation], Inl (ErrorObject translated)))\<close>
proof -
  have general: "unwrapError parse errorIn
      = Inr \<lparr>message = ''The bundler has failed to include UserOperation in a batch: ''
                        @ reason @ '' (paymaster address: '' @ paymaster @ ''))'',
             stack = stack errorIn, body = None\<rparr>"
    if "body errorIn = Some b" and "parse b = Some errorBody"
      and "get_prop (get_prop (Val errorBody) ''error'') ''message'' = Val (JString m)"
      and "match_FailedOp m = Some g" and "split_comma g = i # paymaster # reason # rest"
    using that
    by (simp add: unwrapError_def translate_string generic_error_def bundler_prefix_def
          field_text_def)
  have example: "unwrapError json_parse
        \<lparr>message = msg, stack = st,
         body = Some ''{\"error\":{\"message\":\"FailedOp(0,0xPAYMASTER,AA21 didn't pay prefund)\"}}''\<rparr>
      = Inr \<lparr>message = ''The bundler has failed to include UserOperation in a batch: AA21 didn't pay prefund (paymaster address: 0xPAYMASTER))'',
             stack = st, body = None\<rparr>"
    by (simp add: unwrapError_def json_parse_failedOp translate_failedOp
          generic_error_def bundler_prefix_def)
  have thrown: "submit c userOperation
      = ([SendUserOpToBundler userOperation], Inl (ErrorObject translated))"
    if "sendUserOpToBundler c userOperation = Inl errorIn"
      and "unwrapError (JSON_parse c) errorIn = Inr translated"
    using that by (simp add: submit_def)
  from general example thrown show ?thesis by blast
qed

theorem unwrapError_FailedOp_witness:
  \<open>body ex_error_failedOp
     = Some ''{"error":{"message":"FailedOp(0,0xPAYMASTER,AA21 didn't pay prefund)"}}''
   \<and> json_parse ''{"error":{"message":"FailedOp(0,0xPAYMASTER,AA21 didn't pay prefund)"}}''
       = Some (JObject [(''error'', JObject [(''message'',
           JString ''FailedOp(0,0xPAYMASTER,AA21 didn't pay prefund)'')])])
   \<and> match_FailedOp ''FailedOp(0,0xPAYMASTER,AA21 didn't pay prefund)''
       = Some ''0,0xPAYMASTER,AA21 didn't pay prefund''
   \<and> split_comma ''0,0xPAYMASTER,AA21 didn't pay prefund''
       = [''0'', ''0xPAYMASTER'', ''AA21 didn't pay prefund'']
   \<and> unwrapError json_parse ex_error_failedOp
       = Inr \<lparr>message = ''The bundler has failed to include UserOperation in a batch: AA21 didn't pay prefund (paymaster address: 0xPAYMASTER))'',
              stack = Some ''at relay'', body = None\<rparr>
   \<and> submit (ex_collaborators ex_error_failedOp) ex_userOp
       = ([SendUserOpToBundler ex_userOp],
          Inl (ErrorObject
                 \<lparr>message = ''The bundler has failed to include UserOperation in a batch: AA21 didn't pay prefund (paymaster address: 0xPAYMASTER))'',
                  stack = Some ''at relay'', body = None\<rparr>))\<close>
proof -
  note t = unwrapError_FailedOp
    [of ex_error_failedOp _ json_parse
        "JObject [(''error'', JObject [(''message'',
           JString ''FailedOp(0,0xPAYMASTER,AA21 didn't pay prefund)'')])]"
        "''FailedOp(0,0xPAYMASTER,AA21 didn't pay prefund)''"
        "''0,0xPAYMASTER,AA21 didn't pay prefund''"
        "''0''" "''0xPAYMASTER''" "''AA21 didn't pay prefund''" "[]" _ _
        "ex_collaborators ex_error_failedOp" ex_userOp]
  have a: \<open>body ex_error_failedOp
     = Some ''{"error":{"message":"FailedOp(0,0xPAYMASTER,AA21 didn't pay prefund)"}}''\<close>
    by (simp add: ex_error_failedOp_def)
  have gp: "get_prop (get_prop
               (Val (JObject [(''error'', JObject [(''message'',
                  JString ''FailedOp(0,0xPAYMASTER,AA21 didn't pay prefund)'')])])) ''error'')
               ''message''
            = Val (JString ''FailedOp(0,0xPAYMASTER,AA21 didn't pay prefund)'')"
    by simp
  from t a json_parse_failedOp gp match_failedOp split_failedOp
  have "unwrapError json_parse ex_error_failedOp
      = Inr \<lparr>message = ''The bundler has failed to include UserOperation in a batch: ''
                        @ ''AA21 didn't pay prefund'' @ '' (paymaster address: ''
                        @ ''0xPAYMASTER'' @ ''))'',
             stack = stack ex_error_failedOp, body = None\<rparr>"
    by blast
  then have b: "unwrapError json_parse ex_error_failedOp
       = Inr \<lparr>message = ''The bundler has failed to include UserOperation in a batch: AA21 didn't pay prefund (paymaster address: 0xPAYMASTER))'',
              stack = Some ''at relay'', body = None\<rparr>"
    by (simp add: ex_error_failedOp_def ex_error_def)
  have c: "submit (ex_collaborators ex_error_failedOp) ex_userOp
       = ([SendUserOpToBundler ex_userOp],
          Inl (ErrorObject
                 \<lparr>message = ''The bundler has failed to include UserOperation in a batch: AA21 didn't pay prefund (paymaster address: 0xPAYMASTER))'',
                  stack = Some ''at relay'', body = None\<rparr>))"
    using t b by (simp add: ex_collaborators_def)
  from a b c json_parse_failedOp match_failedOp split_failedOp show ?thesis by blast
qed

subsection \<open>Required fields\<close>

lemma populate_with_estimate_keeps:
  "populate_with_estimate estimate tx = (evs, Inr tx') \<Longrightarrow>
     to tx' = to tx \<and> data tx' = data tx \<and> tx_value tx' = tx_value tx"
  by (auto simp: populate_with_estimate_def split: option.splits prod.splits sum.splits)

lemma estimateGas_events:
  "estimateGas c tx = (evs, r) \<Longrightarrow>
     \<forall>ev \<in> set evs. (\<exists>d. ev = CreateUnsignedUserOp d) \<or> (\<exists>op. ev = EstimateUserOpGas op)"
  by (auto simp: estimateGas_def Let_def split: sum.splits)

lemma populate_with_estimate_events:
  "populate_with_estimate (estimateGas c) tx = (evs, r) \<Longrightarrow>
     \<forall>ev \<in> set evs. (\<exists>d. ev = CreateUnsignedUserOp d) \<or> (\<exists>op. ev = EstimateUserOpGas op)"
  by (auto simp: populate_with_estimate_def split: option.splits prod.splits sum.splits
        dest!: estimateGas_events)

lemma zero_fees_keeps:
  "to (zero_fees tx) = to tx \<and> data (zero_fees tx) = data tx \<and> tx_value (zero_fees tx) = tx_value tx"
  by (simp add: zero_fees_def)

text \<open>
  C4, as the code has it. The fields are checked on the populated request, after
  \<open>populateTransaction\<close> has run: when the populated request has no \<open>to\<close>, or has
  neither \<open>data\<close> nor \<open>value\<close>, \<open>sendTransaction\<close> rejects with \<open>Missing call target\<close>
  or \<open>Missing call data or value\<close>, and the only calls made are those of
  \<open>populateTransaction\<close>. Where \<open>populateTransaction\<close> estimates the gas of a request
  without gas limit, a request lacking these fields is rejected having built no signed
  operation, called no hook and submitted nothing: the only calls are those of the
  estimate.
\<close>

theorem sendTransaction_missing_fields:
  "(populate (zero_fees transaction) = (ev0, Inr tx)
      \<and> (to tx = None \<or> (data tx = None \<and> tx_value tx = None)) \<longrightarrow>
    sendTransaction c populate transaction
      = (ev0, Inl (NewError (if to tx = None then ''Missing call target''
                             else ''Missing call data or value''))))
   \<and> (to transaction = None \<or> (data transaction = None \<and> tx_value transaction = None) \<longrightarrow>
      (\<exists>e. snd (sendTransaction c (populate_with_estimate (estimateGas c)) transaction) = Inl e)
      \<and> (\<forall>ev \<in> set (fst (sendTransaction c (populate_with_estimate (estimateGas c)) transaction)).
            (\<exists>d. ev = CreateUnsignedUserOp d) \<or> (\<exists>op. ev = EstimateUserOpGas op)))"
proof -
  have first: "sendTransaction c populate transaction
      = (ev0, Inl (NewError (if to tx = None then ''Missing call target''
                             else ''Missing call data or value'')))"
    if "populate (zero_fees transaction) = (ev0, Inr tx)"
      and "to tx = None \<or> (data tx = None \<and> tx_value tx = None)"
    for populate ev0 tx
    using that by (auto simp: sendTransaction_def verifyAllNecessaryFields_def)
  have second: "(\<exists>e. snd (sendTransaction c (populate_with_estimate (estimateGas c)) transaction) = Inl e)
      \<and> (\<forall>ev \<in> set (fst (sendTransaction c (populate_with_estimate (estimateGas c)) transaction)).
            (\<exists>d. ev = CreateUnsignedUserOp d) \<or> (\<exists>op. ev = EstimateUserOpGas op))"
    if miss: "to transaction = None \<or> (data transaction = None \<and> tx_value transaction = None)"
  proof (cases "populate_with_estimate (estimateGas c) (zero_fees transaction)")
    case (Pair evs r)
    note ev = populate_with_estimate_events [OF Pair]
    show ?thesis
    proof (cases r)
      case (Inl e)
      with Pair ev show ?thesis
        by (simp add: sendTransaction_def)
    next
      case (Inr tx)
      from Pair Inr have "to tx = to transaction \<and> data tx = data transaction
          \<and> tx_value tx = tx_value transaction"
        using populate_with_estimate_keeps [of "estimateGas c" "zero_fees transaction" evs tx]
          zero_fees_keeps [of transaction]
        by simp
      with miss have "to tx = None \<or> (data tx = None \<and> tx_value tx = None)"
        by simp
      from first [OF _ this, of "populate_with_estimate (estimateGas c)" evs] Pair Inr ev
      show ?thesis by simp
    qed
  qed
  from first second show ?thesis by blast
qed

theorem sendTransaction_missing_fields_witness:
  "to ex_request = Some ''0xrecipient'' \<and> data ex_request = None \<and> tx_value ex_request = None
   \<and> sendTransaction (ex_collaborators ex_error) (\<lambda>tx. ([], Inr tx)) ex_request
       = ([], Inl (NewError ''Missing call data or value''))
   \<and> to (ex_request\<lparr>to := None\<rparr>) = None
   \<and> snd (sendTransaction (ex_collaborators ex_error)
             (populate_with_estimate (estimateGas (ex_collaborators ex_error)))
             (ex_request\<lparr>to := None\<rparr>))
       = Inl (NewError ''Missing call target'')"
proof -
  note t1 = sendTransaction_missing_fields
    [of "\<lambda>tx. ([], Inr tx)" ex_request "[]" "zero_fees ex_request" "ex_collaborators ex_error"]
  note t2 = sendTransaction_missing_fields
    [of "populate_with_estimate (estimateGas (ex_collaborators ex_error))"
        "ex_request\<lparr>to := None\<rparr>"
        "fst (populate_with_estimate (estimateGas (ex_collaborators ex_error))
                (zero_fees (ex_request\<lparr>to := None\<rparr>)))"
        "zero_fees (ex_request\<lparr>to := None\<rparr>)\<lparr>gasLimit := Some (BigNumber 6)\<rparr>"
        "ex_collaborators ex_error"]
  have a: "to ex_request = Some ''0xrecipient'' \<and> data ex_request = None \<and> tx_value ex_request = None"
    by (simp add: ex_request_def)
  have b: "sendTransaction (ex_collaborators ex_error) (\<lambda>tx. ([], Inr tx)) ex_request
       = ([], Inl (NewError ''Missing call data or value''))"
    using t1 a by (simp add: zero_fees_def)
  have p: "populate_with_estimate (estimateGas (ex_collaborators ex_error))
             (zero_fees (ex_request\<lparr>to := None\<rparr>))
           = (fst (populate_with_estimate (estimateGas (ex_collaborators ex_error))
                (zero_fees (ex_request\<lparr>to := None\<rparr>))),
              Inr (zero_fees (ex_request\<lparr>to := None\<rparr>)\<lparr>gasLimit := Some (BigNumber 6)\<rparr>))"
    by (simp add: populate_with_estimate_def estimateGas_def ex_collaborators_def ex_request_def
          zero_fees_def Let_def)
  have c: "snd (sendTransaction (ex_collaborators ex_error)
             (populate_with_estimate (estimateGas (ex_collaborators ex_error)))
             (ex_request\<lparr>to := None\<rparr>))
       = Inl (NewError ''Missing call target'')"
    using t2 p by (simp add: zero_fees_def)
  have d: "to (ex_request\<lparr>to := None\<rparr>) = None"
    by simp
  from a b c d show ?thesis by blast
qed

text \<open>
  The claim as it was stated fails on a request with a recipient and neither data nor
  value: the gas is estimated through the relay client before the request is rejected.
\<close>

theorem sendTransaction_missing_fields_counterexample:
  "to ex_request = Some ''0xrecipient'' \<and> data ex_request = None \<and> tx_value ex_request = None
   \<and> sendTransaction (ex_collaborators ex_error)
       (populate_with_estimate (estimateGas (ex_collaborators ex_error))) ex_request
     = ([CreateUnsignedUserOp
           \<lparr>target = ''0xrecipient'', details_data = ''0x'', details_value = None,
            details_gasLimit = None, details_maxFeePerGas = None,
            details_maxPriorityFeePerGas = None\<rparr>,
         EstimateUserOpGas (ex_userOp\<lparr>signature := dummy_signature\<rparr>)],
        Inl (NewError ''Missing call data or value''))"
  by (simp add: sendTransaction_def populate_with_estimate_def estimateGas_def
        ex_collaborators_def ex_request_def zero_fees_def unsigned_details_def
        verifyAllNecessaryFields_def Let_def)

subsection \<open>Message signatures\<close>

lemma length_be_bytes: "length (be_bytes k n) = k"
  by (induction k arbitrary: n) auto

lemma be_nat_snoc: "be_nat (bs @ [b]) = be_nat bs * 256 + unat b"
  by (simp add: be_nat_def)

lemma be_nat_be_bytes: "be_nat (be_bytes k n) = n mod 256 ^ k"
proof (induction k arbitrary: n)
  case 0
  then show ?case by (simp add: be_nat_def)
next
  case (Suc k)
  have "unat (of_nat (n mod 256) :: byte) = n mod 256"
    by (simp add: unat_of_nat)
  then have "be_nat (be_bytes (Suc k) n) = (n div 256 mod 256 ^ k) * 256 + n mod 256"
    by (simp add: be_nat_snoc Suc.IH)
  also have "\<dots> = n mod 256 ^ Suc k"
    by (simp add: mod_mult2_eq)
  finally show ?case .
qed

lemma length_uint256: "length (uint256 n) = 32"
  by (simp add: uint256_def length_be_bytes)

lemma be_nat_uint256: "n < 2 ^ 256 \<Longrightarrow> be_nat (uint256 n) = n"
proof -
  assume "n < 2 ^ 256"
  moreover have "(256::nat) ^ 32 = 2 ^ 256"
    by simp
  ultimately show ?thesis
    by (simp add: uint256_def be_nat_be_bytes)
qed

lemma take_pad_right: "take (length bs) (pad_right bs) = bs"
  by (simp add: pad_right_def)

lemma length_pad_right: "length (pad_right bs) \<le> length bs + 31"
proof -
  have "(32 - length bs mod 32) mod 32 \<le> 31"
    by (simp add: Suc_leI less_Suc_eq_le[symmetric])
  then show ?thesis by (simp add: pad_right_def)
qed

lemma length_encode_bytes: "length (encode_bytes bs) = 32 + length (pad_right bs)"
  by (simp add: encode_bytes_def length_uint256)

lemma decode_encode_bytes:
  assumes "length pre = off" and "length bs < 2 ^ 256"
  shows "decode_bytes_at (pre @ encode_bytes bs @ post) off = bs"
proof -
  have "drop off (pre @ encode_bytes bs @ post) = uint256 (length bs) @ pad_right bs @ post"
    using assms(1) by (simp add: encode_bytes_def)
  then have len: "be_nat (take 32 (drop off (pre @ encode_bytes bs @ post))) = length bs"
    using assms(2) by (simp add: length_uint256 be_nat_uint256)
  have "drop (off + 32) (pre @ encode_bytes bs @ post) = pad_right bs @ post"
    using assms(1) by (simp add: encode_bytes_def length_uint256)
  then have "take (length bs) (drop (off + 32) (pre @ encode_bytes bs @ post)) = bs"
    by (simp add: pad_right_def)
  with len show ?thesis
    by (simp only: decode_bytes_at_def)
qed

lemma abi_decode_encode:
  assumes "length b1 + 160 < 2 ^ 256" and "length b2 < 2 ^ 256"
  shows "abi_decode (abi_encode a b1 b2) = (a, b1, b2)"
proof -
  let ?off2 = "96 + length (encode_bytes b1)"
  let ?enc = "abi_encode a b1 b2"
  have l1: "length b1 < 2 ^ 256"
    using assms(1) by simp
  have off2: "?off2 < 2 ^ 256"
    using assms(1) length_pad_right [of b1] by (simp add: length_encode_bytes)
  have head: "length (encode_address a) = 32"
    by (simp add: encode_address_def length_uint256)
  have w0: "take 32 ?enc = uint256 (unat a)"
    by (simp add: abi_encode_def encode_address_def length_uint256)
  have w1: "take 32 (drop 32 ?enc) = uint256 96"
    by (simp add: abi_encode_def head length_uint256)
  have w2: "take 32 (drop 64 ?enc) = uint256 ?off2"
    by (simp add: abi_encode_def head length_uint256)
  have "unat a < 2 ^ 160"
    using unsigned_less [of a, where ?'a = nat] by simp
  moreover have "(2::nat) ^ 160 < 2 ^ 256"
    by simp
  ultimately have "unat a < 2 ^ 256"
    by (rule less_trans)
  then have a: "of_nat (be_nat (take 32 ?enc)) = a"
    by (simp add: w0 be_nat_uint256)
  have o1: "be_nat (take 32 (drop 32 ?enc)) = 96"
    by (simp add: w1 be_nat_uint256)
  have o2: "be_nat (take 32 (drop 64 ?enc)) = ?off2"
    using off2 by (simp only: w2 be_nat_uint256)
  have e1: "?enc = (encode_address a @ uint256 96 @ uint256 ?off2) @ encode_bytes b1 @ encode_bytes b2"
    by (simp add: abi_encode_def)
  have e2: "?enc = (encode_address a @ uint256 96 @ uint256 ?off2 @ encode_bytes b1)
                     @ encode_bytes b2 @ []"
    by (simp add: abi_encode_def)
  have d1: "decode_bytes_at ?enc 96 = b1"
    by (subst e1, rule decode_encode_bytes [OF _ l1]) (simp add: head length_uint256)
  have d2: "decode_bytes_at ?enc ?off2 = b2"
    by (subst e2, rule decode_encode_bytes [OF _ assms(2)]) (simp add: head length_uint256)
  show ?thesis
    by (simp only: abi_decode_def a o1 o2 d1 d2)
qed

lemma length_MAGIC_SUFFIX: "length MAGIC_SUFFIX = 32"
  by code_simp

lemma unwrap_wrap:
  assumes "length b1 + 160 < 2 ^ 256" and "length b2 < 2 ^ 256"
  shows "unwrap (abi_encode a b1 b2 @ MAGIC_SUFFIX) = Some b2"
  using assms by (simp add: unwrap_def abi_decode_encode suffix_def length_MAGIC_SUFFIX)

lemma signMessage_deployed:
  "\<not> (isPhantom api \<and> length (code_at ch (accountAddress api)) \<le> 2) \<Longrightarrow>
     fst (signMessage ch api sign factoryAddr initPayload msg) = sign msg"
  by (auto simp: signMessage_def checkAccountPhantom_def Let_def)

lemma signMessage_phantom:
  "isPhantom api \<Longrightarrow> length (code_at ch (accountAddress api)) \<le> 2 \<Longrightarrow>
     fst (signMessage ch api sign factoryAddr initPayload msg)
       = abi_encode factoryAddr initPayload (sign msg) @ MAGIC_SUFFIX"
  by (auto simp: signMessage_def checkAccountPhantom_def Let_def)

lemma MAGIC_SUFFIX_bytes:
  "MAGIC_SUFFIX =
     [0x64, 0x92, 0x64, 0x92, 0x64, 0x92, 0x64, 0x92, 0x64, 0x92, 0x64, 0x92, 0x64, 0x92, 0x64, 0x92,
      0x64, 0x92, 0x64, 0x92, 0x64, 0x92, 0x64, 0x92, 0x64, 0x92, 0x64, 0x92, 0x64, 0x92, 0x64, 0x92]"
  by code_simp

lemma be_bytes_numeral:
  "be_bytes (numeral k) n = be_bytes (pred_numeral k) (n div 256) @ [of_nat (n mod 256)]"
  by (simp only: numeral_eq_Suc [of k] be_bytes.simps)

lemma be_bytes_1: "be_bytes 1 n = [of_nat (n mod 256)]"
  by (simp only: One_nat_def be_bytes.simps append_Nil)

lemma replicate_numeral_Cons: "replicate (numeral k) x = x # replicate (pred_numeral k) x"
  by (simp only: numeral_eq_Suc [of k] replicate.simps)

lemma replicate_1: "replicate 1 x = [x]"
  by (simp only: One_nat_def replicate.simps)

lemma abi_encode_example:
  "abi_encode 0x5d7a58eFbC95f5b3Da446D9496D73a6E9D57b0a4 [0xAB, 0xCD] [1, 2, 3] =
      [0x00, 0x00, 0x00, 0x00, 0x00, 0x00, 0x00, 0x00, 0x00, 0x00, 0x00, 0x00, 0x5D, 0x7A, 0x58, 0xEF,
       0xBC, 0x95, 0xF5, 0xB3, 0xDA, 0x44, 0x6D, 0x94, 0x96, 0xD7, 0x3A, 0x6E, 0x9D, 0x57, 0xB0, 0xA4,
       0x00, 0x00, 0x00, 0x00, 0x00, 0x00, 0x00, 0x00, 0x00, 0x00, 0x00, 0x00, 0x00, 0x00, 0x00, 0x00,
       0x00, 0x00, 0x00, 0x00, 0x00, 0x00, 0x00, 0x00, 0x00, 0x00, 0x00, 0x00, 0x00, 0x00, 0x00, 0x60,
       0x00, 0x00, 0x00, 0x00, 0x00, 0x00, 0x00, 0x00, 0x00, 0x00, 0x00, 0x00, 0x00, 0x00, 0x00, 0x00,
       0x00, 0x00, 0x00, 0x00, 0x00, 0x00, 0x00, 0x00, 0x00, 0x00, 0x00, 0x00, 0x00, 0x00, 0x00, 0xA0,
       0x00, 0x00, 0x00, 0x00, 0x00, 0x00, 0x00, 0x00, 0x00, 0x00, 0x00, 0x00, 0x00, 0x00, 0x00, 0x00,
       0x00, 0x00, 0x00, 0x00, 0x00, 0x00, 0x00, 0x00, 0x00, 0x00, 0x00, 0x00, 0x00, 0x00, 0x00, 0x02,
       0xAB, 0xCD, 0x00, 0x00, 0x00, 0x00, 0x00, 0x00, 0x00, 0x00, 0x00, 0x00, 0x00, 0x00, 0x00, 0x00,
       0x00, 0x00, 0x00, 0x00, 0x00, 0x00, 0x00, 0x00, 0x00, 0x00, 0x00, 0x00, 0x00, 0x00, 0x00, 0x00,
       0x00, 0x00, 0x00, 0x00, 0x00, 0x00, 0x00, 0x00, 0x00, 0x00, 0x00, 0x00, 0x00, 0x00, 0x00, 0x00,
       0x00, 0x00, 0x00, 0x00, 0x00, 0x00, 0x00, 0x00, 0x00, 0x00, 0x00, 0x00, 0x00, 0x00, 0x00, 0x03,
       0x01, 0x02, 0x03, 0x00, 0x00, 0x00, 0x00, 0x00, 0x00, 0x00, 0x00, 0x00, 0x00, 0x00, 0x00, 0x00,
       0x00, 0x00, 0x00, 0x00, 0x00, 0x00, 0x00, 0x00, 0x00, 0x00, 0x00, 0x00, 0x00, 0x00, 0x00, 0x00]"
  by (simp add: abi_encode_def encode_address_def encode_bytes_def uint256_def pad_right_def
        be_bytes_numeral be_bytes_1 replicate_numeral_Cons replicate_1)

lemma length_abi_encode:
  "length (abi_encode a b1 b2) = 160 + length (pad_right b1) + length (pad_right b2)"
  by (simp add: abi_encode_def encode_address_def length_uint256 length_encode_bytes)

lemma length_pad_right_mod: "length (pad_right bs) mod 32 = 0"
proof (cases "length bs mod 32 = 0")
  case True
  then show ?thesis
    by (simp add: pad_right_def)
next
  case False
  then have "(32 - length bs mod 32) mod 32 = 32 - length bs mod 32"
    by simp
  then have "length (pad_right bs) = length bs + (32 - length bs mod 32)"
    by (simp add: pad_right_def)
  also have "\<dots> = 32 * (length bs div 32) + 32"
    using div_mult_mod_eq [of "length bs" 32] mod_less_divisor [of 32 "length bs"]
    by linarith
  finally show ?thesis
    by simp
qed

lemma signMessage_example:
  "fst (signMessage ex_chain ex_api (\<lambda>m. [1, 2, 3])
          0x5d7a58eFbC95f5b3Da446D9496D73a6E9D57b0a4 [0xAB, 0xCD] msg)
     = [0x00, 0x00, 0x00, 0x00, 0x00, 0x00, 0x00, 0x00, 0x00, 0x00, 0x00, 0x00, 0x5D, 0x7A, 0x58, 0xEF,
          0xBC, 0x95, 0xF5, 0xB3, 0xDA, 0x44, 0x6D, 0x94, 0x96, 0xD7, 0x3A, 0x6E, 0x9D, 0x57, 0xB0, 0xA4,
          0x00, 0x00, 0x00, 0x00, 0x00, 0x00, 0x00, 0x00, 0x00, 0x00, 0x00, 0x00, 0x00, 0x00, 0x00, 0x00,
          0x00, 0x00, 0x00, 0x00, 0x00, 0x00, 0x00, 0x00, 0x00, 0x00, 0x00, 0x00, 0x00, 0x00, 0x00, 0x60,
          0x00, 0x00, 0x00, 0x00, 0x00, 0x00, 0x00, 0x00, 0x00, 0x00, 0x00, 0x00, 0x00, 0x00, 0x00, 0x00,
          0x00, 0x00, 0x00, 0x00, 0x00, 0x00, 0x00, 0x00, 0x00, 0x00, 0x00, 0x00, 0x00, 0x00, 0x00, 0xA0,
          0x00, 0x00, 0x00, 0x00, 0x00, 0x00, 0x00, 0x00, 0x00, 0x00, 0x00, 0x00, 0x00, 0x00, 0x00, 0x00,
          0x00, 0x00, 0x00, 0x00, 0x00, 0x00, 0x00, 0x00, 0x00, 0x00, 0x00, 0x00, 0x00, 0x00, 0x00, 0x02,
          0xAB, 0xCD, 0x00, 0x00, 0x00, 0x00, 0x00, 0x00, 0x00, 0x00, 0x00, 0x00, 0x00, 0x00, 0x00, 0x00,
          0x00, 0x00, 0x00, 0x00, 0x00, 0x00, 0x00, 0x00, 0x00, 0x00, 0x00, 0x00, 0x00, 0x00, 0x00, 0x00,
          0x00, 0x00, 0x00, 0x00, 0x00, 0x00, 0x00, 0x00, 0x00, 0x00, 0x00, 0x00, 0x00, 0x00, 0x00, 0x00,
          0x00, 0x00, 0x00, 0x00, 0x00, 0x00, 0x00, 0x00, 0x00, 0x00, 0x00, 0x00, 0x00, 0x00, 0x00, 0x03,
          0x01, 0x02, 0x03, 0x00, 0x00, 0x00, 0x00, 0x00, 0x00, 0x00, 0x00, 0x00, 0x00, 0x00, 0x00, 0x00,
          0x00, 0x00, 0x00, 0x00, 0x00, 0x00, 0x00, 0x00, 0x00, 0x00, 0x00, 0x00, 0x00, 0x00, 0x00, 0x00,
          0x64, 0x92, 0x64, 0x92, 0x64, 0x92, 0x64, 0x92, 0x64, 0x92, 0x64, 0x92, 0x64, 0x92, 0x64, 0x92,
          0x64, 0x92, 0x64, 0x92, 0x64, 0x92, 0x64, 0x92, 0x64, 0x92, 0x64, 0x92, 0x64, 0x92, 0x64, 0x92]"
proof -
  have "isPhantom ex_api" and "length (code_at ex_chain (accountAddress ex_api)) \<le> 2"
    by (simp_all add: ex_api_def ex_chain_def)
  then have "fst (signMessage ex_chain ex_api (\<lambda>m. [1, 2, 3])
          0x5d7a58eFbC95f5b3Da446D9496D73a6E9D57b0a4 [0xAB, 0xCD] msg)
     = abi_encode 0x5d7a58eFbC95f5b3Da446D9496D73a6E9D57b0a4 [0xAB, 0xCD] [1, 2, 3]
         @ MAGIC_SUFFIX"
    by (rule signMessage_phantom)
  then show ?thesis
    by (simp only: abi_encode_example MAGIC_SUFFIX_bytes append.simps)
qed

text \<open>
  C3. For every message, \<open>signMessage\<close> on a Deployed account returns the fixed raw
  signature as it is; on a Phantom account it returns the encoding of the factory
  address, the factory init payload and the raw signature, followed by the magic
  suffix. The suffix is one constant of 32 bytes, the same for every owner, and the
  wrapped signature ends with it. The encoding is three head words and, for each of
  the two byte strings, a length word and the bytes padded to a multiple of 32; for the
  factory \<open>0x5d7a58eFbC95f5b3Da446D9496D73a6E9D57b0a4\<close>, the payload \<open>0xabcd\<close>
  and the signature \<open>0x010203\<close> it is the 224 bytes written out below, and
  what \<open>signMessage\<close> returns for them on a Phantom account is those bytes and the suffix.
\<close>

theorem signMessage_wrap:
  "(\<not> (isPhantom api \<and> length (code_at ch (accountAddress api)) \<le> 2) \<longrightarrow>
      fst (signMessage ch api sign factoryAddr initPayload msg) = sign msg)
   \<and> (isPhantom api \<and> length (code_at ch (accountAddress api)) \<le> 2 \<longrightarrow>
      fst (signMessage ch api sign factoryAddr initPayload msg)
        = abi_encode factoryAddr initPayload (sign msg) @ MAGIC_SUFFIX
      \<and> suffix MAGIC_SUFFIX (fst (signMessage ch api sign factoryAddr initPayload msg)))
   \<and> length MAGIC_SUFFIX = 32
   \<and> MAGIC_SUFFIX =
     [0x64, 0x92, 0x64, 0x92, 0x64, 0x92, 0x64, 0x92, 0x64, 0x92, 0x64, 0x92, 0x64, 0x92, 0x64, 0x92,
      0x64, 0x92, 0x64, 0x92, 0x64, 0x92, 0x64, 0x92, 0x64, 0x92, 0x64, 0x92, 0x64, 0x92, 0x64, 0x92]
   \<and> abi_encode 0x5d7a58eFbC95f5b3Da446D9496D73a6E9D57b0a4 [0xAB, 0xCD] [1, 2, 3] =
      [0x00, 0x00, 0x00, 0x00, 0x00, 0x00, 0x00, 0x00, 0x00, 0x00, 0x00, 0x00, 0x5D, 0x7A, 0x58, 0xEF,
       0xBC, 0x95, 0xF5, 0xB3, 0xDA, 0x44, 0x6D, 0x94, 0x96, 0xD7, 0x3A, 0x6E, 0x9D, 0x57, 0xB0, 0xA4,
       0x00, 0x00, 0x00, 0x00, 0x00, 0x00, 0x00, 0x00, 0x00, 0x00, 0x00, 0x00, 0x00, 0x00, 0x00, 0x00,
       0x00, 0x00, 0x00, 0x00, 0x00, 0x00, 0x00, 0x00, 0x00, 0x00, 0x00, 0x00, 0x00, 0x00, 0x00, 0x60,
       0x00, 0x00, 0x00, 0x00, 0x00, 0x00, 0x00, 0x00, 0x00, 0x00, 0x00, 0x00, 0x00, 0x00, 0x00, 0x00,
       0x00, 0x00, 0x00, 0x00, 0x00, 0x00, 0x00, 0x00, 0x00, 0x00, 0x00, 0x00, 0x00, 0x00, 0x00, 0xA0,
       0x00, 0x00, 0x00, 0x00, 0x00, 0x00, 0x00, 0x00, 0x00, 0x00, 0x00, 0x00, 0x00, 0x00, 0x00, 0x00,
       0x00, 0x00, 0x00, 0x00, 0x00, 0x00, 0x00, 0x00, 0x00, 0x00, 0x00, 0x00, 0x00, 0x00, 0x00, 0x02,
       0xAB, 0xCD, 0x00, 0x00, 0x00, 0x00, 0x00, 0x00, 0x00, 0x00, 0x00, 0x00, 0x00, 0x00, 0x00, 0x00,
       0x00, 0x00, 0x00, 0x00, 0x00, 0x00, 0x00, 0x00, 0x00, 0x00, 0x00, 0x00, 0x00, 0x00, 0x00, 0x00,
       0x00, 0x00, 0x00, 0x00, 0x00, 0x00, 0x00, 0x00, 0x00, 0x00, 0x00, 0x00, 0x00, 0x00, 0x00, 0x00,
       0x00, 0x00, 0x00, 0x00, 0x00, 0x00, 0x00, 0x00, 0x00, 0x00, 0x00, 0x00, 0x00, 0x00, 0x00, 0x03,
       0x01, 0x02, 0x03, 0x00, 0x00, 0x00, 0x00, 0x00, 0x00, 0x00, 0x00, 0x00, 0x00, 0x00, 0x00, 0x00,
       0x00, 0x00, 0x00, 0x00, 0x00, 0x00, 0x00, 0x00, 0x00, 0x00, 0x00, 0x00, 0x00, 0x00, 0x00, 0x00]
   \<and> fst (signMessage ex_chain ex_api (\<lambda>m. [1, 2, 3])
            0x5d7a58eFbC95f5b3Da446D9496D73a6E9D57b0a4 [0xAB, 0xCD] msg)
       = [0x00, 0x00, 0x00, 0x00, 0x00, 0x00, 0x00, 0x00, 0x00, 0x00, 0x00, 0x00, 0x5D, 0x7A, 0x58, 0xEF,
          0xBC, 0x95, 0xF5, 0xB3, 0xDA, 0x44, 0x6D, 0x94, 0x96, 0xD7, 0x3A, 0x6E, 0x9D, 0x57, 0xB0, 0xA4,
          0x00, 0x00, 0x00, 0x00, 0x00, 0x00, 0x00, 0x00, 0x00, 0x00, 0x00, 0x00, 0x00, 0x00, 0x00, 0x00,
          0x00, 0x00, 0x00, 0x00, 0x00, 0x00, 0x00, 0x00, 0x00, 0x00, 0x00, 0x00, 0x00, 0x00, 0x00, 0x60,
          0x00, 0x00, 0x00, 0x00, 0x00, 0x00, 0x00, 0x00, 0x00, 0x00, 0x00, 0x00, 0x00, 0x00, 0x00, 0x00,
          0x00, 0x00, 0x00, 0x00, 0x00, 0x00, 0x00, 0x00, 0x00, 0x00, 0x00, 0x00, 0x00, 0x00, 0x00, 0xA0,
          0x00, 0x00, 0x00, 0x00, 0x00, 0x00, 0x00, 0x00, 0x00, 0x00, 0x00, 0x00, 0x00, 0x00, 0x00, 0x00,
          0x00, 0x00, 0x00, 0x00, 0x00, 0x00, 0x00, 0x00, 0x00, 0x00, 0x00, 0x00, 0x00, 0x00, 0x00, 0x02,
          0xAB, 0xCD, 0x00, 0x00, 0x00, 0x00, 0x00, 0x00, 0x00, 0x00, 0x00, 0x00, 0x00, 0x00, 0x00, 0x00,
          0x00, 0x00, 0x00, 0x00, 0x00, 0x00, 0x00, 0x00, 0x00, 0x00, 0x00, 0x00, 0x00, 0x00, 0x00, 0x00,
          0x00, 0x00, 0x00, 0x00, 0x00, 0x00, 0x00, 0x00, 0x00, 0x00, 0x00, 0x00, 0x00, 0x00, 0x00, 0x00,
          0x00, 0x00, 0x00, 0x00, 0x00, 0x00, 0x00, 0x00, 0x00, 0x00, 0x00, 0x00, 0x00, 0x00, 0x00, 0x03,
          0x01, 0x02, 0x03, 0x00, 0x00, 0x00, 0x00, 0x00, 0x00, 0x00, 0x00, 0x00, 0x00, 0x00, 0x00, 0x00,
          0x00, 0x00, 0x00, 0x00, 0x00, 0x00, 0x00, 0x00, 0x00, 0x00, 0x00, 0x00, 0x00, 0x00, 0x00, 0x00,
          0x64, 0x92, 0x64, 0x92, 0x64, 0x92, 0x64, 0x92, 0x64, 0x92, 0x64, 0x92, 0x64, 0x92, 0x64, 0x92,
          0x64, 0x92, 0x64, 0x92, 0x64, 0x92, 0x64, 0x92, 0x64, 0x92, 0x64, 0x92, 0x64, 0x92, 0x64, 0x92]
   \<and> length (abi_encode factoryAddr initPayload (sign msg))
       = 160 + length (pad_right initPayload) + length (pad_right (sign msg))
   \<and> length (pad_right initPayload) mod 32 = 0
   \<and> length (pad_right (sign msg)) mod 32 = 0"
proof (intro conjI impI)
  show "fst (signMessage ch api sign factoryAddr initPayload msg) = sign msg"
    if "\<not> (isPhantom api \<and> length (code_at ch (accountAddress api)) \<le> 2)"
    using that by (rule signMessage_deployed)
  show "fst (signMessage ch api sign factoryAddr initPayload msg)
        = abi_encode factoryAddr initPayload (sign msg) @ MAGIC_SUFFIX"
    if "isPhantom api \<and> length (code_at ch (accountAddress api)) \<le> 2"
    using that by (simp add: signMessage_phantom)
  show "suffix MAGIC_SUFFIX (fst (signMessage ch api sign factoryAddr initPayload msg))"
    if "isPhantom api \<and> length (code_at ch (accountAddress api)) \<le> 2"
    using that by (simp add: signMessage_phantom suffix_def)
  show "length MAGIC_SUFFIX = 32"
    by (rule length_MAGIC_SUFFIX)
  show "MAGIC_SUFFIX =
     [0x64, 0x92, 0x64, 0x92, 0x64, 0x92, 0x64, 0x92, 0x64, 0x92, 0x64, 0x92, 0x64, 0x92, 0x64, 0x92,
      0x64, 0x92, 0x64, 0x92, 0x64, 0x92, 0x64, 0x92, 0x64, 0x92, 0x64, 0x92, 0x64, 0x92, 0x64, 0x92]"
    by (rule MAGIC_SUFFIX_bytes)
  show "abi_encode 0x5d7a58eFbC95f5b3Da446D9496D73a6E9D57b0a4 [0xAB, 0xCD] [1, 2, 3] =
      [0x00, 0x00, 0x00, 0x00, 0x00, 0x00, 0x00, 0x00, 0x00, 0x00, 0x00, 0x00, 0x5D, 0x7A, 0x58, 0xEF,
       0xBC, 0x95, 0xF5, 0xB3, 0xDA, 0x44, 0x6D, 0x94, 0x96, 0xD7, 0x3A, 0x6E, 0x9D, 0x57, 0xB0, 0xA4,
       0x00, 0x00, 0x00, 0x00, 0x00, 0x00, 0x00, 0x00, 0x00, 0x00, 0x00, 0x00, 0x00, 0x00, 0x00, 0x00,
       0x00, 0x00, 0x00, 0x00, 0x00, 0x00, 0x00, 0x00, 0x00, 0x00, 0x00, 0x00, 0x00, 0x00, 0x00, 0x60,
       0x00, 0x00, 0x00, 0x00, 0x00, 0x00, 0x00, 0x00, 0x00, 0x00, 0x00, 0x00, 0x00, 0x00, 0x00, 0x00,
       0x00, 0x00, 0x00, 0x00, 0x00, 0x00, 0x00, 0x00, 0x00, 0x00, 0x00, 0x00, 0x00, 0x00, 0x00, 0xA0,
       0x00, 0x00, 0x00, 0x00, 0x00, 0x00, 0x00, 0x00, 0x00, 0x00, 0x00, 0x00, 0x00, 0x00, 0x00, 0x00,
       0x00, 0x00, 0x00, 0x00, 0x00, 0x00, 0x00, 0x00, 0x00, 0x00, 0x00, 0x00, 0x00, 0x00, 0x00, 0x02,
       0xAB, 0xCD, 0x00, 0x00, 0x00, 0x00, 0x00, 0x00, 0x00, 0x00, 0x00, 0x00, 0x00, 0x00, 0x00, 0x00,
       0x00, 0x00, 0x00, 0x00, 0x00, 0x00, 0x00, 0x00, 0x00, 0x00, 0x00, 0x00, 0x00, 0x00, 0x00, 0x00,
       0x00, 0x00, 0x00, 0x00, 0x00, 0x00, 0x00, 0x00, 0x00, 0x00, 0x00, 0x00, 0x00, 0x00, 0x00, 0x00,
       0x00, 0x00, 0x00, 0x00, 0x00, 0x00, 0x00, 0x00, 0x00, 0x00, 0x00, 0x00, 0x00, 0x00, 0x00, 0x03,
       0x01, 0x02, 0x03, 0x00, 0x00, 0x00, 0x00, 0x00, 0x00, 0x00, 0x00, 0x00, 0x00, 0x00, 0x00, 0x00,
       0x00, 0x00, 0x00, 0x00, 0x00, 0x00, 0x00, 0x00, 0x00, 0x00, 0x00, 0x00, 0x00, 0x00, 0x00, 0x00]"
    by (rule abi_encode_example)
  show "fst (signMessage ex_chain ex_api (\<lambda>m. [1, 2, 3])
            0x5d7a58eFbC95f5b3Da446D9496D73a6E9D57b0a4 [0xAB, 0xCD] msg)
       = [0x00, 0x00, 0x00, 0x00, 0x00, 0x00, 0x00, 0x00, 0x00, 0x00, 0x00, 0x00, 0x5D, 0x7A, 0x58, 0xEF,
          0xBC, 0x95, 0xF5, 0xB3, 0xDA, 0x44, 0x6D, 0x94, 0x96, 0xD7, 0x3A, 0x6E, 0x9D, 0x57, 0xB0, 0xA4,
          0x00, 0x00, 0x00, 0x00, 0x00, 0x00, 0x00, 0x00, 0x00, 0x00, 0x00, 0x00, 0x00, 0x00, 0x00, 0x00,
          0x00, 0x00, 0x00, 0x00, 0x00, 0x00, 0x00, 0x00, 0x00, 0x00, 0x00, 0x00, 0x00, 0x00, 0x00, 0x60,
          0x00, 0x00, 0x00, 0x00, 0x00, 0x00, 0x00, 0x00, 0x00, 0x00, 0x00, 0x00, 0x00, 0x00, 0x00, 0x00,
          0x00, 0x00, 0x00, 0x00, 0x00, 0x00, 0x00, 0x00, 0x00, 0x00, 0x00, 0x00, 0x00, 0x00, 0x00, 0xA0,
          0x00, 0x00, 0x00, 0x00, 0x00, 0x00, 0x00, 0x00, 0x00, 0x00, 0x00, 0x00, 0x00, 0x00, 0x00, 0x00,
          0x00, 0x00, 0x00, 0x00, 0x00, 0x00, 0x00, 0x00, 0x00, 0x00, 0x00, 0x00, 0x00, 0x00, 0x00, 0x02,
          0xAB, 0xCD, 0x00, 0x00, 0x00, 0x00, 0x00, 0x00, 0x00, 0x00, 0x00, 0x00, 0x00, 0x00, 0x00, 0x00,
          0x00, 0x00, 0x00, 0x00, 0x00, 0x00, 0x00, 0x00, 0x00, 0x00, 0x00, 0x00, 0x00, 0x00, 0x00, 0x00,
          0x00, 0x00, 0x00, 0x00, 0x00, 0x00, 0x00, 0x00, 0x00, 0x00, 0x00, 0x00, 0x00, 0x00, 0x00, 0x00,
          0x00, 0x00, 0x00, 0x00, 0x00, 0x00, 0x00, 0x00, 0x00, 0x00, 0x00, 0x00, 0x00, 0x00, 0x00, 0x03,
          0x01, 0x02, 0x03, 0x00, 0x00, 0x00, 0x00, 0x00, 0x00, 0x00, 0x00, 0x00, 0x00, 0x00, 0x00, 0x00,
          0x00, 0x00, 0x00, 0x00, 0x00, 0x00, 0x00, 0x00, 0x00, 0x00, 0x00, 0x00, 0x00, 0x00, 0x00, 0x00,
          0x64, 0x92, 0x64, 0x92, 0x64, 0x92, 0x64, 0x92, 0x64, 0x92, 0x64, 0x92, 0x64, 0x92, 0x64, 0x92,
          0x64, 0x92, 0x64, 0x92, 0x64, 0x92, 0x64, 0x92, 0x64, 0x92, 0x64, 0x92, 0x64, 0x92, 0x64, 0x92]"
    by (rule signMessage_example)
  show "length (abi_encode factoryAddr initPayload (sign msg))
       = 160 + length (pad_right initPayload) + length (pad_right (sign msg))"
    by (rule length_abi_encode)
  show "length (pad_right initPayload) mod 32 = 0"
    by (rule length_pad_right_mod)
  show "length (pad_right (sign msg)) mod 32 = 0"
    by (rule length_pad_right_mod)
qed

theorem signMessage_wrap_witness:
  "isPhantom ex_api \<and> length (code_at ex_chain (accountAddress ex_api)) \<le> 2
   \<and> fst (signMessage ex_chain ex_api (\<lambda>m. [1, 2, 3])
            0x5d7a58eFbC95f5b3Da446D9496D73a6E9D57b0a4 [0xAB, 0xCD] ''hello'')
       = [0x00, 0x00, 0x00, 0x00, 0x00, 0x00, 0x00, 0x00, 0x00, 0x00, 0x00, 0x00, 0x5D, 0x7A, 0x58, 0xEF,
          0xBC, 0x95, 0xF5, 0xB3, 0xDA, 0x44, 0x6D, 0x94, 0x96, 0xD7, 0x3A, 0x6E, 0x9D, 0x57, 0xB0, 0xA4,
          0x00, 0x00, 0x00, 0x00, 0x00, 0x00, 0x00, 0x00, 0x00, 0x00, 0x00, 0x00, 0x00, 0x00, 0x00, 0x00,
          0x00, 0x00, 0x00, 0x00, 0x00, 0x00, 0x00, 0x00, 0x00, 0x00, 0x00, 0x00, 0x00, 0x00, 0x00, 0x60,
          0x00, 0x00, 0x00, 0x00, 0x00, 0x00, 0x00, 0x00, 0x00, 0x00, 0x00, 0x00, 0x00, 0x00, 0x00, 0x00,
          0x00, 0x00, 0x00, 0x00, 0x00, 0x00, 0x00, 0x00, 0x00, 0x00, 0x00, 0x00, 0x00, 0x00, 0x00, 0xA0,
          0x00, 0x00, 0x00, 0x00, 0x00, 0x00, 0x00, 0x00, 0x00, 0x00, 0x00, 0x00, 0x00, 0x00, 0x00, 0x00,
          0x00, 0x00, 0x00, 0x00, 0x00, 0x00, 0x00, 0x00, 0x00, 0x00, 0x00, 0x00, 0x00, 0x00, 0x00, 0x02,
          0xAB, 0xCD, 0x00, 0x00, 0x00, 0x00, 0x00, 0x00, 0x00, 0x00, 0x00, 0x00, 0x00, 0x00, 0x00, 0x00,
          0x00, 0x00, 0x00, 0x00, 0x00, 0x00, 0x00, 0x00, 0x00, 0x00, 0x00, 0x00, 0x00, 0x00, 0x00, 0x00,
          0x00, 0x00, 0x00, 0x00, 0x00, 0x00, 0x00, 0x00, 0x00, 0x00, 0x00, 0x00, 0x00, 0x00, 0x00, 0x00,
          0x00, 0x00, 0x00, 0x00, 0x00, 0x00, 0x00, 0x00, 0x00, 0x00, 0x00, 0x00, 0x00, 0x00, 0x00, 0x03,
          0x01, 0x02, 0x03, 0x00, 0x00, 0x00, 0x00, 0x00, 0x00, 0x00, 0x00, 0x00, 0x00, 0x00, 0x00, 0x00,
          0x00, 0x00, 0x00, 0x00, 0x00, 0x00, 0x00, 0x00, 0x00, 0x00, 0x00, 0x00, 0x00, 0x00, 0x00, 0x00,
          0x64, 0x92, 0x64, 0x92, 0x64, 0x92, 0x64, 0x92, 0x64, 0x92, 0x64, 0x92, 0x64, 0x92, 0x64, 0x92,
          0x64, 0x92, 0x64, 0x92, 0x64, 0x92, 0x64, 0x92, 0x64, 0x92, 0x64, 0x92, 0x64, 0x92, 0x64, 0x92]
   \<and> \<not> (isPhantom (ex_api\<lparr>isPhantom := False\<rparr>)
          \<and> length (code_at ex_chain (accountAddress (ex_api\<lparr>isPhantom := False\<rparr>))) \<le> 2)
   \<and> fst (signMessage ex_chain (ex_api\<lparr>isPhantom := False\<rparr>) (\<lambda>m. [1, 2, 3])
            0x5d7a58eFbC95f5b3Da446D9496D73a6E9D57b0a4 [0xAB, 0xCD] ''hello'')
       = [1, 2, 3]"
proof (intro conjI)
  note t = signMessage_wrap
    [of ex_api ex_chain "\<lambda>m. [1, 2, 3]" "0x5d7a58eFbC95f5b3Da446D9496D73a6E9D57b0a4"
        "[0xAB, 0xCD]" "''hello''"]
  note u = signMessage_wrap
    [of "ex_api\<lparr>isPhantom := False\<rparr>" ex_chain "\<lambda>m. [1, 2, 3]"
        "0x5d7a58eFbC95f5b3Da446D9496D73a6E9D57b0a4" "[0xAB, 0xCD]" "''hello''"]
  show p1: "isPhantom ex_api"
    by (simp add: ex_api_def)
  show p2: "length (code_at ex_chain (accountAddress ex_api)) \<le> 2"
    by (simp add: ex_api_def ex_chain_def)
  have enc: "abi_encode 0x5d7a58eFbC95f5b3Da446D9496D73a6E9D57b0a4 [0xAB, 0xCD] [1, 2, 3] =
      [0x00, 0x00, 0x00, 0x00, 0x00, 0x00, 0x00, 0x00, 0x00, 0x00, 0x00, 0x00, 0x5D, 0x7A, 0x58, 0xEF,
       0xBC, 0x95, 0xF5, 0xB3, 0xDA, 0x44, 0x6D, 0x94, 0x96, 0xD7, 0x3A, 0x6E, 0x9D, 0x57, 0xB0, 0xA4,
       0x00, 0x00, 0x00, 0x00, 0x00, 0x00, 0x00, 0x00, 0x00, 0x00, 0x00, 0x00, 0x00, 0x00, 0x00, 0x00,
       0x00, 0x00, 0x00, 0x00, 0x00, 0x00, 0x00, 0x00, 0x00, 0x00, 0x00, 0x00, 0x00, 0x00, 0x00, 0x60,
       0x00, 0x00, 0x00, 0x00, 0x00, 0x00, 0x00, 0x00, 0x00, 0x00, 0x00, 0x00, 0x00, 0x00, 0x00, 0x00,
       0x00, 0x00, 0x00, 0x00, 0x00, 0x00, 0x00, 0x00, 0x00, 0x00, 0x00, 0x00, 0x00, 0x00, 0x00, 0xA0,
       0x00, 0x00, 0x00, 0x00, 0x00, 0x00, 0x00, 0x00, 0x00, 0x00, 0x00, 0x00, 0x00, 0x00, 0x00, 0x00,
       0x00, 0x00, 0x00, 0x00, 0x00, 0x00, 0x00, 0x00, 0x00, 0x00, 0x00, 0x00, 0x00, 0x00, 0x00, 0x02,
       0xAB, 0xCD, 0x00, 0x00, 0x00, 0x00, 0x00, 0x00, 0x00, 0x00, 0x00, 0x00, 0x00, 0x00, 0x00, 0x00,
       0x00, 0x00, 0x00, 0x00, 0x00, 0x00, 0x00, 0x00, 0x00, 0x00, 0x00, 0x00, 0x00, 0x00, 0x00, 0x00,
       0x00, 0x00, 0x00, 0x00, 0x00, 0x00, 0x00, 0x00, 0x00, 0x00, 0x00, 0x00, 0x00, 0x00, 0x00, 0x00,
       0x00, 0x00, 0x00, 0x00, 0x00, 0x00, 0x00, 0x00, 0x00, 0x00, 0x00, 0x00, 0x00, 0x00, 0x00, 0x03,
       0x01, 0x02, 0x03, 0x00, 0x00, 0x00, 0x00, 0x00, 0x00, 0x00, 0x00, 0x00, 0x00, 0x00, 0x00, 0x00,
       0x00, 0x00, 0x00, 0x00, 0x00, 0x00, 0x00, 0x00, 0x00, 0x00, 0x00, 0x00, 0x00, 0x00, 0x00, 0x00]"
    by (rule t [THEN conjunct2, THEN conjunct2, THEN conjunct2, THEN conjunct2, THEN conjunct1])
  have suf: "MAGIC_SUFFIX =
     [0x64, 0x92, 0x64, 0x92, 0x64, 0x92, 0x64, 0x92, 0x64, 0x92, 0x64, 0x92, 0x64, 0x92, 0x64, 0x92,
      0x64, 0x92, 0x64, 0x92, 0x64, 0x92, 0x64, 0x92, 0x64, 0x92, 0x64, 0x92, 0x64, 0x92, 0x64, 0x92]"
    by (rule t [THEN conjunct2, THEN conjunct2, THEN conjunct2, THEN conjunct1])
  have "fst (signMessage ex_chain ex_api (\<lambda>m. [1, 2, 3])
            0x5d7a58eFbC95f5b3Da446D9496D73a6E9D57b0a4 [0xAB, 0xCD] ''hello'')
       = abi_encode 0x5d7a58eFbC95f5b3Da446D9496D73a6E9D57b0a4 [0xAB, 0xCD] [1, 2, 3]
           @ MAGIC_SUFFIX"
    by (rule t [THEN conjunct2, THEN conjunct1, THEN mp, THEN conjunct1]) (simp add: p1 p2)
  then show "fst (signMessage ex_chain ex_api (\<lambda>m. [1, 2, 3])
            0x5d7a58eFbC95f5b3Da446D9496D73a6E9D57b0a4 [0xAB, 0xCD] ''hello'')
       = [0x00, 0x00, 0x00, 0x00, 0x00, 0x00, 0x00, 0x00, 0x00, 0x00, 0x00, 0x00, 0x5D, 0x7A, 0x58, 0xEF,
          0xBC, 0x95, 0xF5, 0xB3, 0xDA, 0x44, 0x6D, 0x94, 0x96, 0xD7, 0x3A, 0x6E, 0x9D, 0x57, 0xB0, 0xA4,
          0x00, 0x00, 0x00, 0x00, 0x00, 0x00, 0x00, 0x00, 0x00, 0x00, 0x00, 0x00, 0x00, 0x00, 0x00, 0x00,
          0x00, 0x00, 0x00, 0x00, 0x00, 0x00, 0x00, 0x00, 0x00, 0x00, 0x00, 0x00, 0x00, 0x00, 0x00, 0x60,
          0x00, 0x00, 0x00, 0x00, 0x00, 0x00, 0x00, 0x00, 0x00, 0x00, 0x00, 0x00, 0x00, 0x00, 0x00, 0x00,
          0x00, 0x00, 0x00, 0x00, 0x00, 0x00, 0x00, 0x00, 0x00, 0x00, 0x00, 0x00, 0x00, 0x00, 0x00, 0xA0,
          0x00, 0x00, 0x00, 0x00, 0x00, 0x00, 0x00, 0x00, 0x00, 0x00, 0x00, 0x00, 0x00, 0x00, 0x00, 0x00,
          0x00, 0x00, 0x00, 0x00, 0x00, 0x00, 0x00, 0x00, 0x00, 0x00, 0x00, 0x00, 0x00, 0x00, 0x00, 0x02,
          0xAB, 0xCD, 0x00, 0x00, 0x00, 0x00, 0x00, 0x00, 0x00, 0x00, 0x00, 0x00, 0x00, 0x00, 0x00, 0x00,
          0x00, 0x00, 0x00, 0x00, 0x00, 0x00, 0x00, 0x00, 0x00, 0x00, 0x00, 0x00, 0x00, 0x00, 0x00, 0x00,
          0x00, 0x00, 0x00, 0x00, 0x00, 0x00, 0x00, 0x00, 0x00, 0x00, 0x00, 0x00, 0x00, 0x00, 0x00, 0x00,
          0x00, 0x00, 0x00, 0x00, 0x00, 0x00, 0x00, 0x00, 0x00, 0x00, 0x00, 0x00, 0x00, 0x00, 0x00, 0x03,
          0x01, 0x02, 0x03, 0x00, 0x00, 0x00, 0x00, 0x00, 0x00, 0x00, 0x00, 0x00, 0x00, 0x00, 0x00, 0x00,
          0x00, 0x00, 0x00, 0x00, 0x00, 0x00, 0x00, 0x00, 0x00, 0x00, 0x00, 0x00, 0x00, 0x00, 0x00, 0x00,
          0x64, 0x92, 0x64, 0x92, 0x64, 0x92, 0x64, 0x92, 0x64, 0x92, 0x64, 0x92, 0x64, 0x92, 0x64, 0x92,
          0x64, 0x92, 0x64, 0x92, 0x64, 0x92, 0x64, 0x92, 0x64, 0x92, 0x64, 0x92, 0x64, 0x92, 0x64, 0x92]"
    by (simp only: enc suf append.simps)
  show q: "\<not> (isPhantom (ex_api\<lparr>isPhantom := False\<rparr>)
          \<and> length (code_at ex_chain (accountAddress (ex_api\<lparr>isPhantom := False\<rparr>))) \<le> 2)"
    by simp
  show "fst (signMessage ex_chain (ex_api\<lparr>isPhantom := False\<rparr>) (\<lambda>m. [1, 2, 3])
            0x5d7a58eFbC95f5b3Da446D9496D73a6E9D57b0a4 [0xAB, 0xCD] ''hello'')
       = [1, 2, 3]"
    by (rule u [THEN conjunct1, THEN mp]) (rule q)
qed

text \<open>
  C6. The packing is reversible: on a Phantom account, stripping the suffix from what
  \<open>signMessage\<close> returns and decoding the triple gives back the factory address, the
  init payload and the raw signature, so that \<open>unwrap\<close> of the wrapped signature is the
  raw signature, for byte strings whose lengths fit the 256-bit words of the encoding.
  On a Deployed account the signature is returned as it is.
\<close>

theorem signMessage_unwrap:
  "(isPhantom api \<and> length (code_at ch (accountAddress api)) \<le> 2
      \<and> length initPayload + 160 < 2 ^ 256 \<and> length (sign msg) < 2 ^ 256 \<longrightarrow>
    unwrap (fst (signMessage ch api sign factoryAddr initPayload msg)) = Some (sign msg)
    \<and> abi_decode (take (length (fst (signMessage ch api sign factoryAddr initPayload msg))
                          - length MAGIC_SUFFIX)
                    (fst (signMessage ch api sign factoryAddr initPayload msg)))
      = (factoryAddr, initPayload, sign msg))
   \<and> (\<not> (isPhantom api \<and> length (code_at ch (accountAddress api)) \<le> 2) \<longrightarrow>
      fst (signMessage ch api sign factoryAddr initPayload msg) = sign msg)"
proof -
  have "unwrap (fst (signMessage ch api sign factoryAddr initPayload msg)) = Some (sign msg)
    \<and> abi_decode (take (length (fst (signMessage ch api sign factoryAddr initPayload msg))
                          - length MAGIC_SUFFIX)
                    (fst (signMessage ch api sign factoryAddr initPayload msg)))
      = (factoryAddr, initPayload, sign msg)"
    if "isPhantom api" and "length (code_at ch (accountAddress api)) \<le> 2"
      and "length initPayload + 160 < 2 ^ 256" and "length (sign msg) < 2 ^ 256"
    using that by (simp add: signMessage_phantom unwrap_wrap abi_decode_encode)
  with signMessage_deployed [of api ch sign factoryAddr initPayload msg]
  show ?thesis by blast
qed

theorem signMessage_unwrap_witness:
  "isPhantom ex_api \<and> length (code_at ex_chain (accountAddress ex_api)) \<le> 2
   \<and> length [9, 9 :: byte] + 160 < (2::nat) ^ 256 \<and> length [1, 2, 3 :: byte] < (2::nat) ^ 256
   \<and> unwrap (fst (signMessage ex_chain ex_api (\<lambda>m. [1, 2, 3]) 5 [9, 9] ''hello'')) = Some [1, 2, 3]
   \<and> \<not> (isPhantom (ex_api\<lparr>isPhantom := False\<rparr>)
          \<and> length (code_at ex_chain (accountAddress (ex_api\<lparr>isPhantom := False\<rparr>))) \<le> 2)
   \<and> fst (signMessage ex_chain (ex_api\<lparr>isPhantom := False\<rparr>) (\<lambda>m. [1, 2, 3]) 5 [9, 9] ''hello'')
       = [1, 2, 3]"
  using signMessage_unwrap [of ex_api ex_chain "[9, 9]" "\<lambda>m. [1, 2, 3]" "''hello''" 5]
    signMessage_unwrap [of "ex_api\<lparr>isPhantom := False\<rparr>" ex_chain "[9, 9]" "\<lambda>m. [1, 2, 3]" "''hello''" 5]
  by (simp add: ex_api_def ex_chain_def)

end
